theory Spec2Isabelle
  imports Main "HOL-Library.Word" "HOL-Library.Monad_Syntax"
begin

unbundle bit_operations_syntax

section \<open>Machine integers\<close>

text \<open>
  A C \<^verbatim>\<open>int\<close> is a 32-bit word read in two's complement (\<open>sint\<close>, \<open><s\<close>, \<open>\<le>s\<close>);
  \<^verbatim>\<open>unsigned int\<close> and \<^verbatim>\<open>uint32_t\<close> are the same word read unsigned; \<^verbatim>\<open>long long\<close> is a
  64-bit word. Signed overflow is undefined behaviour in C; here it wraps, as it does on the
  two's-complement targets the engine is built for. Reference counts are plain integers.
  A failed \<^verbatim>\<open>DP_ASSERT\<close> and a dereference of \<^verbatim>\<open>NULL\<close> or of freed memory are the value
  \<open>None\<close> of the surrounding \<open>option\<close>.
\<close>

type_synonym c_int = "32 word"
type_synonym c_uint = "32 word"
type_synonym c_llong = "64 word"
type_synonym size_t = "64 word"
type_synonym addr = nat

definition INT16_MAX :: c_int where
  "INT16_MAX = 32767"

text \<open>A number that a C \<^verbatim>\<open>int\<close> holds.\<close>

definition fits_int :: "int \<Rightarrow> bool" where
  "fits_int k \<longleftrightarrow> - 2147483648 \<le> k \<and> k \<le> 2147483647"

definition DP_min_int :: "c_int \<Rightarrow> c_int \<Rightarrow> c_int" where
  "DP_min_int a b = (if a <s b then a else b)"

definition DP_max_int :: "c_int \<Rightarrow> c_int \<Rightarrow> c_int" where
  "DP_max_int a b = (if a <s b then b else a)"

definition DP_ASSERT :: "bool \<Rightarrow> unit option" where
  "DP_ASSERT b = (if b then Some () else None)"

text \<open>
  The conversions of dpcommon/conversions.h (generated, not among the sources) are the C
  conversions: on 32-bit words the identity, from \<^verbatim>\<open>int\<close> to the 64-bit \<^verbatim>\<open>size_t\<close> the sign
  extension, so that a negative \<^verbatim>\<open>int\<close> becomes a size of at least \<open>2\<^sup>6\<^sup>3\<close>. Their range
  assertions are not modelled.
\<close>

definition DP_uint_to_int :: "c_uint \<Rightarrow> c_int" where
  "DP_uint_to_int x = x"

definition DP_uint32_to_int :: "32 word \<Rightarrow> c_int" where
  "DP_uint32_to_int x = x"

definition DP_int_to_size :: "c_int \<Rightarrow> size_t" where
  "DP_int_to_size x = scast x"

section \<open>Images (image.c)\<close>

type_synonym DP_Pixel = "32 word"

record DP_Image =
  img_width :: c_int
  img_height :: c_int
  img_pixels :: "DP_Pixel list"

definition DP_image_new :: "c_int \<Rightarrow> c_int \<Rightarrow> DP_Image option" where
  "DP_image_new w h = do {
     DP_ASSERT (0 \<le>s w);
     DP_ASSERT (0 \<le>s h);
     Some \<lparr>img_width = w, img_height = h,
           img_pixels = replicate (nat (sint w) * nat (sint h)) 0\<rparr>
   }"

text \<open>The twelve assertions at the head of \<^verbatim>\<open>copy_pixels\<close> (both images are non-null values).\<close>

definition copy_pixels_asserts ::
  "DP_Image \<Rightarrow> DP_Image \<Rightarrow> c_int \<Rightarrow> c_int \<Rightarrow> c_int \<Rightarrow> c_int \<Rightarrow> c_int \<Rightarrow> c_int \<Rightarrow> bool" where
  "copy_pixels_asserts dst src dst_x dst_y src_x src_y copy_width copy_height \<longleftrightarrow>
     0 \<le>s dst_x \<and> 0 \<le>s dst_y \<and> 0 \<le>s src_x \<and> 0 \<le>s src_y \<and>
     0 \<le>s copy_width \<and> 0 \<le>s copy_height \<and>
     dst_x + copy_width \<le>s img_width dst \<and>
     src_x + copy_width \<le>s img_width src \<and>
     dst_y + copy_height \<le>s img_height dst \<and>
     src_y + copy_height \<le>s img_height src"

text \<open>\<^verbatim>\<open>memcpy(dst_pixels + d, src_pixels + s, row_size)\<close> on pixel arrays.\<close>

definition memcpy_pixels :: "DP_Pixel list \<Rightarrow> nat \<Rightarrow> DP_Pixel list \<Rightarrow> nat \<Rightarrow> nat \<Rightarrow> DP_Pixel list" where
  "memcpy_pixels dst_pixels d src_pixels s n =
     take d dst_pixels @ take n (drop s src_pixels) @ drop (d + n) dst_pixels"

definition copy_pixels ::
  "DP_Image \<Rightarrow> DP_Image \<Rightarrow> c_int \<Rightarrow> c_int \<Rightarrow> c_int \<Rightarrow> c_int \<Rightarrow> c_int \<Rightarrow> c_int \<Rightarrow> DP_Image option" where
  "copy_pixels dst src dst_x dst_y src_x src_y copy_width copy_height = do {
     DP_ASSERT (copy_pixels_asserts dst src dst_x dst_y src_x src_y copy_width copy_height);
     let dst_width = img_width dst;
         src_width = img_width src;
         row = (\<lambda>y px.
            let d = (of_nat y + dst_y) * dst_width + dst_x;
                s = (of_nat y + src_y) * src_width + src_x
            in memcpy_pixels px (nat (sint d)) (img_pixels src) (nat (sint s))
                 (nat (sint copy_width)))
     in Some (dst\<lparr>img_pixels := fold row [0..<nat (sint copy_height)] (img_pixels dst)\<rparr>)
   }"

definition DP_image_new_subimage ::
  "DP_Image \<Rightarrow> c_int \<Rightarrow> c_int \<Rightarrow> c_int \<Rightarrow> c_int \<Rightarrow> DP_Image option" where
  "DP_image_new_subimage img x y w h = do {
     DP_ASSERT (0 \<le>s w);
     DP_ASSERT (0 \<le>s h);
     sub \<leftarrow> DP_image_new w h;
     let dst_x = (if x <s 0 then - x else 0);
         dst_y = (if y <s 0 then - y else 0);
         src_x = (if 0 <s x then x else 0);
         src_y = (if 0 <s y then y else 0);
         copy_width = DP_min_int (w - dst_x) (img_width img - src_x);
         copy_height = DP_min_int (h - dst_y) (img_height img - src_y)
     in copy_pixels sub img dst_x dst_y src_x src_y copy_width copy_height
   }"

text \<open>A 10 by 10 image of zero pixels.\<close>

definition image_10x10 :: DP_Image where
  "image_10x10 = \<lparr>img_width = 10, img_height = 10, img_pixels = replicate 100 0\<rparr>"


section \<open>The canvas diff (canvas_diff.c)\<close>

record DP_CanvasDiff =
  count :: c_int
  xtiles :: c_int
  ytiles :: c_int
  tile_changes_reserved :: c_int
  tile_changes :: "bool list"
  layer_props_changed :: bool

definition DP_canvas_diff_new :: DP_CanvasDiff where
  "DP_canvas_diff_new =
     \<lparr>count = 0, xtiles = 0, ytiles = 0, tile_changes_reserved = 0, tile_changes = [],
      layer_props_changed = False\<rparr>"

text \<open>
  Modelled from the spec: \<^verbatim>\<open>DP_tile_size_round_up\<close> (tile.h) is not among the sources; the
  spec gives the number of tiles along an axis of \<open>w\<close> pixels as the ceiling of \<open>w / 64\<close>.
\<close>

definition DP_tile_size_round_up :: "c_int \<Rightarrow> c_int" where
  "DP_tile_size_round_up w = word_of_int ((sint w + 63) div 64)"

text \<open>
  The buffer \<open>tile_changes\<close> has \<open>tile_changes_reserved\<close> cells; \<^verbatim>\<open>DP_realloc\<close> extends it
  (the new cells are written before they are read). The two loops are folds over the indices.
\<close>

definition DP_canvas_diff_begin ::
  "DP_CanvasDiff \<Rightarrow> c_int \<Rightarrow> c_int \<Rightarrow> c_int \<Rightarrow> c_int \<Rightarrow> bool \<Rightarrow> DP_CanvasDiff option" where
  "DP_canvas_diff_begin diff old_width old_height current_width current_height lpc = do {
     DP_ASSERT (0 \<le>s old_width);
     DP_ASSERT (0 \<le>s old_height);
     DP_ASSERT (0 \<le>s current_width);
     DP_ASSERT (0 \<le>s current_height);
     let xt = DP_tile_size_round_up current_width;
         yt = DP_tile_size_round_up current_height;
         n = xt * yt;
         diff1 = diff\<lparr>count := n, xtiles := xt, ytiles := yt\<rparr>;
         diff2 = (if tile_changes_reserved diff1 <s n
                  then diff1\<lparr>tile_changes_reserved := n,
                         tile_changes := tile_changes diff1 @
                           replicate (nat (sint n) - length (tile_changes diff1)) False\<rparr>
                  else diff1);
         init = (old_width \<noteq> current_width \<or> old_height \<noteq> current_height)
     in Some (diff2\<lparr>tile_changes :=
                 fold (\<lambda>i tc. tc[i := init]) [0..<nat (sint n)] (tile_changes diff2),
               layer_props_changed := lpc\<rparr>)
   }"

definition DP_canvas_diff_check_all :: "DP_CanvasDiff \<Rightarrow> DP_CanvasDiff" where
  "DP_canvas_diff_check_all diff =
     diff\<lparr>tile_changes :=
       fold (\<lambda>i tc. tc[i := True]) [0..<nat (sint (count diff))] (tile_changes diff)\<rparr>"

definition DP_canvas_diff_tiles_changed :: "DP_CanvasDiff \<Rightarrow> bool" where
  "DP_canvas_diff_tiles_changed diff \<longleftrightarrow>
     list_ex (\<lambda>i. tile_changes diff ! i) [0..<nat (sint (count diff))]"

section \<open>Layers, layer lists, tiles and canvas states\<close>

text \<open>
  A layer carries its id, its sublayers (the layers of \<^verbatim>\<open>DP_layer_sublayers_noinc\<close>) and its
  content \<open>'c\<close>: pixels and properties, which canvas_state.c never reads. Layers are held by
  value in their list; layer lists, tiles and canvas states are reference-counted objects of
  an explicit store. \<^verbatim>\<open>DP_malloc\<close> hands out \<open>next_addr\<close>, an address never used before.
\<close>

datatype 'c DP_Layer =
  DP_Layer (DP_layer_id: c_int) (DP_layer_content: 'c) (DP_layer_sublayers_noinc: "'c DP_Layer list")

record 'c DP_LayerList =
  ll_refcount :: int
  ll_transient :: bool
  ll_layers :: "'c DP_Layer list"

datatype DP_TileData = Tile_bgra c_uint "32 word" | Tile_compressed c_uint "8 word list"

record DP_Tile =
  tile_refcount :: int
  tile_data :: DP_TileData

record DP_CanvasState =
  refcount :: int
  transient :: bool
  width :: c_int
  height :: c_int
  background_tile :: "addr option"
  layers :: "addr option"

record 'c heap =
  canvas_states :: "addr \<rightharpoonup> DP_CanvasState"
  layer_lists :: "addr \<rightharpoonup> 'c DP_LayerList"
  tiles :: "addr \<rightharpoonup> DP_Tile"
  next_addr :: addr
  errors :: "string list"

text \<open>
  Modelled from the spec: \<^verbatim>\<open>DP_error_set\<close> (dpcommon/common.c) is not among the sources. By
  the spec a failure comes with a message; \<open>errors\<close> holds the messages recorded so far, the
  latest first, each the format string of its call.
\<close>

definition DP_error_set :: "string \<Rightarrow> 'c heap \<Rightarrow> 'c heap" where
  "DP_error_set msg h = h\<lparr>errors := msg # errors h\<rparr>"

text \<open>What a handler returns: \<open>None\<close> when it aborts, else the pointer (or \<^verbatim>\<open>NULL\<close>) and the store.\<close>

type_synonym 'c handled = "(addr option \<times> 'c heap) option"

definition list_at :: "'a list \<Rightarrow> nat \<Rightarrow> 'a option" where
  "list_at xs i = (if i < length xs then Some (xs ! i) else None)"

subsection \<open>Reference counts of tiles and layer lists\<close>

text \<open>
  Modelled from the spec: tile.c and layer_list.c are not among the sources. By the spec an
  increment needs a count of at least one, and a decrement to zero releases the object; a
  transient list is a shallow clone with count one, and persisting it clears the flag.
\<close>

definition DP_tile_incref :: "addr \<Rightarrow> 'c heap \<Rightarrow> 'c heap option" where
  "DP_tile_incref t h = do {
     tile \<leftarrow> tiles h t;
     DP_ASSERT (tile_refcount tile > 0);
     Some (h\<lparr>tiles := (tiles h)(t \<mapsto> tile\<lparr>tile_refcount := tile_refcount tile + 1\<rparr>)\<rparr>)
   }"

definition DP_tile_incref_nullable :: "addr option \<Rightarrow> 'c heap \<Rightarrow> 'c heap option" where
  "DP_tile_incref_nullable t_or_null h =
     (case t_or_null of None \<Rightarrow> Some h | Some t \<Rightarrow> DP_tile_incref t h)"

definition DP_tile_decref :: "addr \<Rightarrow> 'c heap \<Rightarrow> 'c heap option" where
  "DP_tile_decref t h = do {
     tile \<leftarrow> tiles h t;
     DP_ASSERT (tile_refcount tile > 0);
     Some (if tile_refcount tile = 1
           then h\<lparr>tiles := (tiles h)(t := None)\<rparr>
           else h\<lparr>tiles := (tiles h)(t \<mapsto> tile\<lparr>tile_refcount := tile_refcount tile - 1\<rparr>)\<rparr>)
   }"

definition DP_tile_decref_nullable :: "addr option \<Rightarrow> 'c heap \<Rightarrow> 'c heap option" where
  "DP_tile_decref_nullable t_or_null h =
     (case t_or_null of None \<Rightarrow> Some h | Some t \<Rightarrow> DP_tile_decref t h)"

definition DP_tile_new :: "DP_TileData \<Rightarrow> 'c heap \<Rightarrow> addr \<times> 'c heap" where
  "DP_tile_new d h =
     (next_addr h,
      h\<lparr>tiles := (tiles h)(next_addr h \<mapsto> \<lparr>tile_refcount = 1, tile_data = d\<rparr>),
        next_addr := Suc (next_addr h)\<rparr>)"

definition DP_tile_new_from_bgra :: "c_uint \<Rightarrow> 32 word \<Rightarrow> 'c heap \<Rightarrow> addr \<times> 'c heap" where
  "DP_tile_new_from_bgra context_id bgra h = DP_tile_new (Tile_bgra context_id bgra) h"

definition tile_data_nullable :: "'c heap \<Rightarrow> addr option \<Rightarrow> DP_TileData option option" where
  "tile_data_nullable h t_or_null =
     (case t_or_null of
        None \<Rightarrow> Some None
      | Some t \<Rightarrow> (case tiles h t of None \<Rightarrow> None | Some tile \<Rightarrow> Some (Some (tile_data tile))))"

definition DP_layer_list_incref :: "addr \<Rightarrow> 'c heap \<Rightarrow> 'c heap option" where
  "DP_layer_list_incref ll h = do {
     l \<leftarrow> layer_lists h ll;
     DP_ASSERT (ll_refcount l > 0);
     Some (h\<lparr>layer_lists := (layer_lists h)(ll \<mapsto> l\<lparr>ll_refcount := ll_refcount l + 1\<rparr>)\<rparr>)
   }"

definition DP_layer_list_decref :: "addr \<Rightarrow> 'c heap \<Rightarrow> 'c heap option" where
  "DP_layer_list_decref ll h = do {
     l \<leftarrow> layer_lists h ll;
     DP_ASSERT (ll_refcount l > 0);
     Some (if ll_refcount l = 1
           then h\<lparr>layer_lists := (layer_lists h)(ll := None)\<rparr>
           else h\<lparr>layer_lists := (layer_lists h)(ll \<mapsto> l\<lparr>ll_refcount := ll_refcount l - 1\<rparr>)\<rparr>)
   }"

definition DP_transient_layer_list_new :: "addr \<Rightarrow> c_int \<Rightarrow> 'c heap \<Rightarrow> (addr \<times> 'c heap) option" where
  "DP_transient_layer_list_new ll reserve h = do {
     l \<leftarrow> layer_lists h ll;
     Some (next_addr h,
           h\<lparr>layer_lists := (layer_lists h)(next_addr h \<mapsto>
                \<lparr>ll_refcount = 1, ll_transient = True, ll_layers = ll_layers l\<rparr>),
             next_addr := Suc (next_addr h)\<rparr>)
   }"

definition DP_transient_layer_list_persist :: "addr \<Rightarrow> 'c heap \<Rightarrow> 'c heap option" where
  "DP_transient_layer_list_persist tll h = do {
     l \<leftarrow> layer_lists h tll;
     Some (h\<lparr>layer_lists := (layer_lists h)(tll \<mapsto> l\<lparr>ll_transient := False\<rparr>)\<rparr>)
   }"

subsection \<open>Canvas states (canvas_state.c)\<close>

definition allocate_canvas_state :: "bool \<Rightarrow> c_int \<Rightarrow> c_int \<Rightarrow> 'c heap \<Rightarrow> addr \<times> 'c heap" where
  "allocate_canvas_state tr w h_px h =
     (next_addr h,
      h\<lparr>canvas_states := (canvas_states h)(next_addr h \<mapsto>
           \<lparr>refcount = 1, transient = tr, width = w, height = h_px,
            background_tile = None, layers = None\<rparr>),
        next_addr := Suc (next_addr h)\<rparr>)"

definition DP_canvas_state_incref :: "addr \<Rightarrow> 'c heap \<Rightarrow> 'c heap option" where
  "DP_canvas_state_incref cs h = do {
     s \<leftarrow> canvas_states h cs;
     DP_ASSERT (refcount s > 0);
     Some (h\<lparr>canvas_states := (canvas_states h)(cs \<mapsto> s\<lparr>refcount := refcount s + 1\<rparr>)\<rparr>)
   }"

definition DP_canvas_state_decref :: "addr \<Rightarrow> 'c heap \<Rightarrow> 'c heap option" where
  "DP_canvas_state_decref cs h = do {
     s \<leftarrow> canvas_states h cs;
     DP_ASSERT (refcount s > 0);
     if refcount s = 1
     then do {
       h1 \<leftarrow> DP_tile_decref_nullable (background_tile s) h;
       ll \<leftarrow> layers s;
       h2 \<leftarrow> DP_layer_list_decref ll h1;
       Some (h2\<lparr>canvas_states := (canvas_states h2)(cs := None)\<rparr>)
     }
     else Some (h\<lparr>canvas_states := (canvas_states h)(cs \<mapsto> s\<lparr>refcount := refcount s - 1\<rparr>)\<rparr>)
   }"

definition DP_transient_canvas_state_new :: "addr \<Rightarrow> 'c heap \<Rightarrow> (addr \<times> 'c heap) option" where
  "DP_transient_canvas_state_new cs h = do {
     s \<leftarrow> canvas_states h cs;
     DP_ASSERT (refcount s > 0);
     DP_ASSERT (\<not> transient s);
     let (tcs, h1) = allocate_canvas_state True (width s) (height s) h;
     h2 \<leftarrow> DP_tile_incref_nullable (background_tile s) h1;
     ll \<leftarrow> layers s;
     h3 \<leftarrow> DP_layer_list_incref ll h2;
     ts \<leftarrow> canvas_states h3 tcs;
     Some (tcs, h3\<lparr>canvas_states := (canvas_states h3)(tcs \<mapsto>
                  ts\<lparr>background_tile := background_tile s, layers := layers s\<rparr>)\<rparr>)
   }"

definition DP_transient_canvas_state_decref :: "addr \<Rightarrow> 'c heap \<Rightarrow> 'c heap option" where
  "DP_transient_canvas_state_decref tcs h = DP_canvas_state_decref tcs h"

definition DP_transient_canvas_state_persist :: "addr \<Rightarrow> 'c heap \<Rightarrow> (addr \<times> 'c heap) option" where
  "DP_transient_canvas_state_persist tcs h = do {
     ts \<leftarrow> canvas_states h tcs;
     DP_ASSERT (refcount ts > 0);
     DP_ASSERT (transient ts);
     ll \<leftarrow> layers ts;
     l \<leftarrow> layer_lists h ll;
     h1 \<leftarrow> (if ll_transient l then DP_transient_layer_list_persist ll h else Some h);
     Some (tcs, h1\<lparr>canvas_states := (canvas_states h1)(tcs \<mapsto> ts\<lparr>transient := False\<rparr>)\<rparr>)
   }"

definition get_transient_layer_list :: "addr \<Rightarrow> c_int \<Rightarrow> 'c heap \<Rightarrow> (addr \<times> 'c heap) option" where
  "get_transient_layer_list tcs reserve h = do {
     ts \<leftarrow> canvas_states h tcs;
     DP_ASSERT (refcount ts > 0);
     DP_ASSERT (transient ts);
     DP_ASSERT (0 \<le>s reserve);
     ll \<leftarrow> layers ts;
     l \<leftarrow> layer_lists h ll;
     if \<not> ll_transient l
     then do {
       (tll, h1) \<leftarrow> DP_transient_layer_list_new ll reserve h;
       h2 \<leftarrow> DP_layer_list_decref ll
              (h1\<lparr>canvas_states := (canvas_states h1)(tcs \<mapsto> ts\<lparr>layers := Some tll\<rparr>)\<rparr>);
       Some (tll, h2)
     }
     else Some (ll, h)
   }"

text \<open>
  The tail shared by the handlers:
  \<^verbatim>\<open>if (ok) return DP_transient_canvas_state_persist(tcs);\<close>
  \<^verbatim>\<open>else { DP_transient_canvas_state_decref(tcs); return NULL; }\<close>
\<close>

definition persist_or_decref :: "bool \<Rightarrow> addr \<Rightarrow> 'c heap \<Rightarrow> 'c handled" where
  "persist_or_decref ok tcs h =
     (if ok
      then do { (p, h') \<leftarrow> DP_transient_canvas_state_persist tcs h; Some (Some p, h') }
      else do { h' \<leftarrow> DP_transient_canvas_state_decref tcs h; Some (None, h') })"


section \<open>Messages and collaborators\<close>

text \<open>
  The message headers of dpmsg are not among the sources: a message is the record of the
  values its accessors return, each field named after its accessor.
\<close>

record DP_MsgCanvasResize =
  DP_msg_canvas_resize_top :: c_int
  DP_msg_canvas_resize_right :: c_int
  DP_msg_canvas_resize_bottom :: c_int
  DP_msg_canvas_resize_left :: c_int

record DP_MsgLayerCreate =
  DP_msg_layer_create_layer_id :: c_int
  DP_msg_layer_create_source_id :: c_int
  DP_msg_layer_create_fill :: "32 word"
  DP_msg_layer_create_flags :: c_uint
  DP_msg_layer_create_title :: string

record DP_MsgLayerAttr =
  DP_msg_layer_attr_layer_id :: c_int
  DP_msg_layer_attr_sublayer_id :: c_int
  DP_msg_layer_attr_flags :: c_uint
  DP_msg_layer_attr_opacity :: "8 word"
  DP_msg_layer_attr_blend_mode :: c_int

record DP_MsgLayerRetitle =
  DP_msg_layer_retitle_layer_id :: c_int
  DP_msg_layer_retitle_title :: string

record DP_MsgLayerDelete =
  DP_msg_layer_delete_layer_id :: c_int
  DP_msg_layer_delete_merge :: bool

record DP_MsgLayerVisibility =
  DP_msg_layer_visibility_layer_id :: c_int
  DP_msg_layer_visibility_visible :: bool

record DP_MsgPutImage =
  DP_msg_put_image_layer_id :: c_int
  DP_msg_put_image_blend_mode :: c_int
  DP_msg_put_image_x :: c_int
  DP_msg_put_image_y :: c_int
  DP_msg_put_image_width :: c_int
  DP_msg_put_image_height :: c_int
  DP_msg_put_image_image :: "8 word list"

record DP_MsgFillRect =
  DP_msg_fill_rect_layer_id :: c_int
  DP_msg_fill_rect_blend_mode :: c_int
  DP_msg_fill_rect_x :: c_int
  DP_msg_fill_rect_y :: c_int
  DP_msg_fill_rect_width :: c_int
  DP_msg_fill_rect_height :: c_int
  DP_msg_fill_rect_color :: "32 word"

datatype DP_Rect = DP_rect_make c_int c_int c_int c_int

datatype DP_Quad = DP_quad_make c_int c_int c_int c_int c_int c_int c_int c_int

record DP_MsgRegionMove =
  DP_msg_region_move_layer_id :: c_int
  DP_msg_region_move_src_rect :: "c_int \<times> c_int \<times> c_int \<times> c_int"
  DP_msg_region_move_dst_quad :: "c_int \<times> c_int \<times> c_int \<times> c_int \<times> c_int \<times> c_int \<times> c_int \<times> c_int"
  DP_msg_region_move_mask :: "8 word list option"

datatype DP_TilePayload = Payload_color "32 word" | Payload_image "8 word list"

record DP_MsgPutTile =
  DP_msg_put_tile_layer_id :: c_int
  DP_msg_put_tile_sublayer_id :: c_int
  DP_msg_put_tile_x :: c_int
  DP_msg_put_tile_y :: c_int
  DP_msg_put_tile_repeat :: c_int
  DP_msg_put_tile_payload :: DP_TilePayload

type_synonym DP_Dab = "8 word list"

record DP_MsgDrawDabs =
  DP_msg_draw_dabs_layer_id :: c_int
  DP_msg_draw_dabs_origin_x :: c_int
  DP_msg_draw_dabs_origin_y :: c_int
  DP_msg_draw_dabs_color :: "32 word"
  DP_msg_draw_dabs_blend_mode :: c_int
  DP_msg_draw_dabs_indirect :: bool
  DP_msg_draw_dabs_dabs :: "DP_Dab list"

datatype DP_MessageBody =
    DP_MSG_CANVAS_RESIZE DP_MsgCanvasResize
  | DP_MSG_LAYER_CREATE DP_MsgLayerCreate
  | DP_MSG_LAYER_ATTR DP_MsgLayerAttr
  | DP_MSG_LAYER_ORDER "c_int list"
  | DP_MSG_LAYER_RETITLE DP_MsgLayerRetitle
  | DP_MSG_LAYER_DELETE DP_MsgLayerDelete
  | DP_MSG_LAYER_VISIBILITY DP_MsgLayerVisibility
  | DP_MSG_PUT_IMAGE DP_MsgPutImage
  | DP_MSG_FILL_RECT DP_MsgFillRect
  | DP_MSG_REGION_MOVE DP_MsgRegionMove
  | DP_MSG_PUT_TILE DP_MsgPutTile
  | DP_MSG_CANVAS_BACKGROUND DP_TilePayload
  | DP_MSG_PEN_UP
  | DP_MSG_DRAW_DABS_CLASSIC DP_MsgDrawDabs
  | DP_MSG_DRAW_DABS_PIXEL DP_MsgDrawDabs
  | DP_MSG_DRAW_DABS_PIXEL_SQUARE DP_MsgDrawDabs
  | DP_MSG_OTHER

record DP_Message =
  DP_message_context_id :: c_uint
  DP_message_body :: DP_MessageBody

datatype DP_DrawDabsType = Dabs_classic | Dabs_pixel | Dabs_pixel_square

text \<open>The fields of \<^verbatim>\<open>DP_PaintDrawDabsParams\<close> in the order of the initialiser (the draw context, scratch memory, is left out).\<close>

record DP_PaintDrawDabsParams =
  params_type :: DP_DrawDabsType
  params_context_id :: c_uint
  params_origin_x :: c_int
  params_origin_y :: c_int
  params_color :: "32 word"
  params_blend_mode :: c_int
  params_dab_count :: c_int
  params_dabs :: "DP_Dab list"

text \<open>
  The operations of layer_list.c on a transient layer list that return \<^verbatim>\<open>bool\<close>, each with
  the arguments the handler passes (the list itself apart). A tile or an image is passed by
  value.
\<close>

datatype DP_LayerListCall =
    DP_transient_layer_list_layer_create c_int c_int "DP_TileData option" bool bool c_int c_int string
  | DP_transient_layer_list_layer_attr c_int c_int "8 word" c_int bool bool
  | DP_transient_layer_list_layer_retitle c_int string
  | DP_transient_layer_list_layer_delete c_uint c_int bool
  | DP_transient_layer_list_layer_visibility c_int bool
  | DP_transient_layer_list_put_image c_uint c_int c_int c_int c_int c_int c_int "8 word list"
  | DP_transient_layer_list_fill_rect c_uint c_int c_int c_int c_int c_int c_int "32 word"
  | DP_transient_layer_list_region_move c_uint c_int DP_Rect DP_Quad "DP_Image option"
  | DP_transient_layer_list_put_tile DP_TileData c_int c_int c_int c_int c_int
  | DP_transient_layer_list_draw_dabs c_int c_int c_int c_int DP_PaintDrawDabsParams

text \<open>
  What canvas_state.c uses and the sources do not hold is a parameter: the blend mode table
  (blend_mode.h), the flag masks of the messages, the inflater (compress.c), the geometry of
  geom.h, and the operations of layer_list.c and layer.c, which act on the layers of the list
  they are handed: \<open>layer_list_op\<close> is \<open>None\<close> when the operation returns \<^verbatim>\<open>false\<close>,
  \<open>layer_reorder\<close> is \<open>None\<close> when \<^verbatim>\<open>DP_layer_list_layer_reorder\<close> returns \<^verbatim>\<open>NULL\<close>, and
  \<open>merge_content\<close> is the content of a layer once a sublayer has been merged into it.
  Whether an operation that fails records a message is its own affair: \<open>layer_list_error\<close>
  and \<open>inflate_error\<close> are the message a layer-list operation that returns \<^verbatim>\<open>false\<close> and an
  inflater that rejects its payload record, \<open>None\<close> if they record none.
\<close>

record 'c env =
  DP_blend_mode_exists :: "c_int \<Rightarrow> bool"
  DP_blend_mode_valid_for_brush :: "c_int \<Rightarrow> bool"
  DP_BLEND_MODE_NORMAL :: c_int
  DP_MSG_LAYER_CREATE_FLAG_INSERT :: c_uint
  DP_MSG_LAYER_CREATE_FLAG_COPY :: c_uint
  DP_MSG_LAYER_ATTR_FLAG_CENSORED :: c_uint
  DP_MSG_LAYER_ATTR_FLAG_FIXED :: c_uint
  DP_compress_inflate :: "8 word list \<Rightarrow> 8 word list option"
  inflate_error :: "8 word list \<Rightarrow> string option"
  DP_quad_bounds :: "DP_Quad \<Rightarrow> DP_Rect"
  DP_rect_size :: "DP_Rect \<Rightarrow> c_llong"
  layer_list_op :: "DP_LayerListCall \<Rightarrow> 'c DP_Layer list \<Rightarrow> 'c DP_Layer list option"
  layer_list_error :: "DP_LayerListCall \<Rightarrow> 'c DP_Layer list \<Rightarrow> string option"
  layer_list_resize :: "c_uint \<Rightarrow> c_int \<Rightarrow> c_int \<Rightarrow> c_int \<Rightarrow> c_int \<Rightarrow> 'c DP_Layer list \<Rightarrow> 'c DP_Layer list"
  layer_reorder :: "'c DP_Layer list \<Rightarrow> c_int list \<Rightarrow> 'c DP_Layer list option"
  layer_list_diff :: "'c DP_Layer list \<Rightarrow> 'c DP_Layer list \<Rightarrow> DP_CanvasDiff \<Rightarrow> DP_CanvasDiff"
  merge_content :: "c_uint \<Rightarrow> 'c DP_Layer \<Rightarrow> 'c DP_Layer \<Rightarrow> 'c"

text \<open>The store after a collaborator has failed, its message recorded if it records one.\<close>

definition collaborator_error :: "string option \<Rightarrow> 'c heap \<Rightarrow> 'c heap" where
  "collaborator_error e h = (case e of None \<Rightarrow> h | Some msg \<Rightarrow> DP_error_set msg h)"

text \<open>A \<^verbatim>\<open>bool\<close> operation applied to the transient list at \<open>tll\<close>.\<close>

definition transient_layer_list_call ::
  "'c env \<Rightarrow> DP_LayerListCall \<Rightarrow> addr \<Rightarrow> 'c heap \<Rightarrow> (bool \<times> 'c heap) option" where
  "transient_layer_list_call env call tll h = do {
     l \<leftarrow> layer_lists h tll;
     case layer_list_op env call (ll_layers l) of
       None \<Rightarrow> Some (False, collaborator_error (layer_list_error env call (ll_layers l)) h)
     | Some ls \<Rightarrow> Some (True, h\<lparr>layer_lists := (layer_lists h)(tll \<mapsto> l\<lparr>ll_layers := ls\<rparr>)\<rparr>)
   }"

definition DP_transient_layer_list_resize ::
  "'c env \<Rightarrow> addr \<Rightarrow> c_uint \<Rightarrow> c_int \<Rightarrow> c_int \<Rightarrow> c_int \<Rightarrow> c_int \<Rightarrow> 'c heap \<Rightarrow> 'c heap option" where
  "DP_transient_layer_list_resize env tll context_id top_b right_b bottom_b left_b h = do {
     l \<leftarrow> layer_lists h tll;
     Some (h\<lparr>layer_lists := (layer_lists h)(tll \<mapsto>
       l\<lparr>ll_layers := layer_list_resize env context_id top_b right_b bottom_b left_b (ll_layers l)\<rparr>)\<rparr>)
   }"

text \<open>
  \<^verbatim>\<open>DP_layer_list_layer_reorder(ll, layer_ids, layer_id_count)\<close> builds a new transient list
  from the list at \<open>ll\<close>, or returns \<^verbatim>\<open>NULL\<close>. A message that it may record then is left out:
  its only caller does not test the result.
\<close>

definition DP_layer_list_layer_reorder ::
  "'c env \<Rightarrow> addr \<Rightarrow> c_int list \<Rightarrow> 'c heap \<Rightarrow> (addr option \<times> 'c heap) option" where
  "DP_layer_list_layer_reorder env ll layer_ids h = do {
     l \<leftarrow> layer_lists h ll;
     case layer_reorder env (ll_layers l) layer_ids of
       None \<Rightarrow> Some (None, h)
     | Some ls \<Rightarrow>
         Some (Some (next_addr h),
               h\<lparr>layer_lists := (layer_lists h)(next_addr h \<mapsto>
                    \<lparr>ll_refcount = 1, ll_transient = True, ll_layers = ls\<rparr>),
                 next_addr := Suc (next_addr h)\<rparr>)
   }"

text \<open>
  Modelled from the spec: layer.c is not among the sources. A transient layer is a cell of
  the list that holds it, so \<^verbatim>\<open>DP_transient_layer_list_transient_at(tll, i)\<close> is the pair of
  \<open>tll\<close> and \<open>i\<close>, and \<^verbatim>\<open>DP_transient_layer_merge_sublayer_at(tl, context_id, j)\<close> merges
  sublayer \<open>j\<close> into that layer and drops it from the layer's sublayers, as the spec has it
  (``merge each into its parent layer'') and the handler's comment (``the merged sublayer is
  gone''). Both act on the list object they are handed.
\<close>

definition DP_transient_layer_list_transient_at :: "addr \<Rightarrow> nat \<Rightarrow> 'c heap \<Rightarrow> 'c heap option" where
  "DP_transient_layer_list_transient_at tll i h = do {
     l \<leftarrow> layer_lists h tll;
     DP_ASSERT (i < length (ll_layers l));
     Some h
   }"

definition DP_transient_layer_merge_sublayer_at ::
  "'c env \<Rightarrow> addr \<Rightarrow> nat \<Rightarrow> c_uint \<Rightarrow> nat \<Rightarrow> 'c heap \<Rightarrow> 'c heap option" where
  "DP_transient_layer_merge_sublayer_at env tll i context_id j h = do {
     l \<leftarrow> layer_lists h tll;
     layer \<leftarrow> list_at (ll_layers l) i;
     sub \<leftarrow> list_at (DP_layer_sublayers_noinc layer) j;
     let merged = DP_Layer (DP_layer_id layer) (merge_content env context_id layer sub)
                    (take j (DP_layer_sublayers_noinc layer) @
                     drop (Suc j) (DP_layer_sublayers_noinc layer))
     in Some (h\<lparr>layer_lists := (layer_lists h)(tll \<mapsto>
                 l\<lparr>ll_layers := (ll_layers l)[i := merged]\<rparr>)\<rparr>)
   }"


subsection \<open>Decoders (tile.c, image.c)\<close>

text \<open>
  Modelled from the spec: \<^verbatim>\<open>DP_tile_new_from_compressed\<close> (tile.c) is not among the sources.
  By the spec a payload that the codec rejects or that does not inflate to the size of a tile
  (64 by 64 pixels of four bytes) is a decode error, a failure with a message.
\<close>

definition DP_tile_new_from_compressed ::
  "'c env \<Rightarrow> c_uint \<Rightarrow> 8 word list \<Rightarrow> 'c heap \<Rightarrow> addr option \<times> 'c heap" where
  "DP_tile_new_from_compressed env context_id in_bytes h =
     (case DP_compress_inflate env in_bytes of
        None \<Rightarrow> (None, collaborator_error (inflate_error env in_bytes) h)
      | Some out \<Rightarrow>
          if length out = 64 * 64 * 4
          then (let (t, h') = DP_tile_new (Tile_compressed context_id in_bytes) h in (Some t, h'))
          else (None, DP_error_set ''Tile decompression needs size %zu, but got %zu'' h))"

text \<open>
  \<^verbatim>\<open>DP_image_new_from_compressed_monochrome\<close> (image.c): one bit per pixel, most significant
  bit first, lines padded to 32 bits. The inflater hands the number of inflated bytes to
  \<^verbatim>\<open>get_monochrome_buffer\<close>, which accepts it only when it is \<open>line_width * line_count\<close>, a
  product of \<^verbatim>\<open>size_t\<close>, and records a message otherwise.
\<close>

definition get_monochrome_buffer :: "size_t \<Rightarrow> c_int \<Rightarrow> c_int \<Rightarrow> 'c heap \<Rightarrow> bool \<times> 'c heap" where
  "get_monochrome_buffer out_size line_width line_count h =
     (let expected_size = DP_int_to_size line_width * DP_int_to_size line_count in
      if out_size = expected_size then (True, h)
      else (False, DP_error_set ''Monochrome decompression needs size %zu, but got %zu'' h))"

text \<open>C's \<^verbatim>\<open>/\<close> on \<^verbatim>\<open>int\<close> truncates towards zero.\<close>

definition c_int_div :: "c_int \<Rightarrow> c_int \<Rightarrow> c_int" where
  "c_int_div a b = word_of_int (sgn (sint a) * sgn (sint b) * (\<bar>sint a\<bar> div \<bar>sint b\<bar>))"

text \<open>
  The byte index \<open>y * line_width + x / 8\<close> is an \<^verbatim>\<open>int\<close>, added to the address of the buffer
  as a 64-bit offset. With a buffer of the size that was accepted the read is inside the
  buffer unless the index overflows; a read outside it is undefined in C, and here it yields
  a byte that is not specified (the element of a list beyond its end).
\<close>

definition extract_monochrome :: "c_int \<Rightarrow> c_int \<Rightarrow> c_int \<Rightarrow> 8 word list \<Rightarrow> DP_Image option" where
  "extract_monochrome w h line_width buffer = do {
     img \<leftarrow> DP_image_new w h;
     Some (img\<lparr>img_pixels :=
       concat (map (\<lambda>y. map (\<lambda>x.
         let byte_index = (of_nat y * line_width + c_int_div (of_nat x) 8 :: c_int);
             white = bit (buffer ! unat (scast byte_index :: size_t)) (7 - x mod 8)
         in (if white then 0xffffffff else 0x00000000))
         [0..<nat (sint w)]) [0..<nat (sint h)])\<rparr>)
   }"

text \<open>The outer \<open>option\<close> is the failed assertion, the inner one the \<^verbatim>\<open>NULL\<close> result.\<close>

definition DP_image_new_from_compressed_monochrome ::
  "'c env \<Rightarrow> c_int \<Rightarrow> c_int \<Rightarrow> 8 word list \<Rightarrow> 'c heap \<Rightarrow> (DP_Image option \<times> 'c heap) option" where
  "DP_image_new_from_compressed_monochrome env w h_px in_bytes h =
     (let line_width = c_int_div (w + 31) 32 * 4 in
      case DP_compress_inflate env in_bytes of
        None \<Rightarrow> Some (None, collaborator_error (inflate_error env in_bytes) h)
      | Some buffer \<Rightarrow>
          (case get_monochrome_buffer (of_nat (length buffer)) line_width h_px h of
             (accepted, h1) \<Rightarrow>
               if accepted
               then do { img \<leftarrow> extract_monochrome w h_px line_width buffer; Some (Some img, h1) }
               else Some (None, h1)))"


section \<open>The command interpreter (canvas_state.c)\<close>

definition DP_transient_canvas_state_resize ::
  "'c env \<Rightarrow> addr \<Rightarrow> c_uint \<Rightarrow> c_int \<Rightarrow> c_int \<Rightarrow> c_int \<Rightarrow> c_int \<Rightarrow> 'c heap
     \<Rightarrow> (bool \<times> 'c heap) option" where
  "DP_transient_canvas_state_resize env tcs context_id top_b right_b bottom_b left_b h = do {
     ts \<leftarrow> canvas_states h tcs;
     DP_ASSERT (refcount ts > 0);
     DP_ASSERT (transient ts);
     let north = - top_b;
         west = - left_b;
         east = width ts + right_b;
         south = height ts + bottom_b
     in if south \<le>s north \<or> east \<le>s west
        then Some (False, DP_error_set ''Invalid resize: borders are reversed'' h)
        else
          let w = east + left_b;
              h_px = south + top_b
          in if w <s 1 \<or> h_px <s 1 \<or> INT16_MAX <s w \<or> INT16_MAX <s h_px
             then Some (False, DP_error_set ''Invalid resize: %dx%d'' h)
             else do {
               let h1 = h\<lparr>canvas_states := (canvas_states h)(tcs \<mapsto>
                            ts\<lparr>width := w, height := h_px\<rparr>)\<rparr>;
               ll \<leftarrow> layers ts;
               l \<leftarrow> layer_lists h1 ll;
               if 0 < length (ll_layers l)
               then do {
                 (tll, h2) \<leftarrow> get_transient_layer_list tcs 0 h1;
                 h3 \<leftarrow> DP_transient_layer_list_resize env tll context_id
                         top_b right_b bottom_b left_b h2;
                 Some (True, h3)
               }
               else Some (True, h1)
             }
   }"

definition handle_canvas_resize ::
  "'c env \<Rightarrow> addr \<Rightarrow> c_uint \<Rightarrow> DP_MsgCanvasResize \<Rightarrow> 'c heap \<Rightarrow> 'c handled" where
  "handle_canvas_resize env cs context_id mcr h = do {
     (tcs, h1) \<leftarrow> DP_transient_canvas_state_new cs h;
     (ok, h2) \<leftarrow> DP_transient_canvas_state_resize env tcs context_id
        (DP_msg_canvas_resize_top mcr) (DP_msg_canvas_resize_right mcr)
        (DP_msg_canvas_resize_bottom mcr) (DP_msg_canvas_resize_left mcr) h1;
     persist_or_decref ok tcs h2
   }"

definition handle_layer_create ::
  "'c env \<Rightarrow> addr \<Rightarrow> c_uint \<Rightarrow> DP_MsgLayerCreate \<Rightarrow> 'c heap \<Rightarrow> 'c handled" where
  "handle_layer_create env cs context_id mlc h = do {
     (tcs, h1) \<leftarrow> DP_transient_canvas_state_new cs h;
     let flags = DP_msg_layer_create_flags mlc;
     let ins = (flags AND DP_MSG_LAYER_CREATE_FLAG_INSERT env \<noteq> 0);
     let copy = (flags AND DP_MSG_LAYER_CREATE_FLAG_COPY env \<noteq> 0);
     let fill = DP_msg_layer_create_fill mlc;
     let (tile, h2) = (if fill = 0 then (None, h1)
                       else (let (t, h') = DP_tile_new_from_bgra context_id fill h1
                             in (Some t, h')));
     ts \<leftarrow> canvas_states h2 tcs;
     td \<leftarrow> tile_data_nullable h2 tile;
     (tll, h3) \<leftarrow> get_transient_layer_list tcs 1 h2;
     (ok, h4) \<leftarrow> transient_layer_list_call env
        (DP_transient_layer_list_layer_create (DP_msg_layer_create_layer_id mlc)
           (DP_msg_layer_create_source_id mlc) td ins copy (width ts) (height ts)
           (DP_msg_layer_create_title mlc)) tll h3;
     h5 \<leftarrow> DP_tile_decref_nullable tile h4;
     persist_or_decref ok tcs h5
   }"

definition handle_layer_attr :: "'c env \<Rightarrow> addr \<Rightarrow> DP_MsgLayerAttr \<Rightarrow> 'c heap \<Rightarrow> 'c handled" where
  "handle_layer_attr env cs mla h = do {
     (tcs, h1) \<leftarrow> DP_transient_canvas_state_new cs h;
     let flags = DP_msg_layer_attr_flags mla;
     let censored = (flags AND DP_MSG_LAYER_ATTR_FLAG_CENSORED env \<noteq> 0);
     let fixed = (flags AND DP_MSG_LAYER_ATTR_FLAG_FIXED env \<noteq> 0);
     (tll, h2) \<leftarrow> get_transient_layer_list tcs 0 h1;
     (ok, h3) \<leftarrow> transient_layer_list_call env
        (DP_transient_layer_list_layer_attr (DP_msg_layer_attr_layer_id mla)
           (DP_msg_layer_attr_sublayer_id mla) (DP_msg_layer_attr_opacity mla)
           (DP_msg_layer_attr_blend_mode mla) censored fixed) tll h2;
     persist_or_decref ok tcs h3
   }"

text \<open>
  \<^verbatim>\<open>handle_layer_order\<close> has no test of the result: it drops the reference the transient
  state took on the list, stores what \<^verbatim>\<open>DP_layer_list_layer_reorder\<close> returned and persists.
\<close>

definition handle_layer_order :: "'c env \<Rightarrow> addr \<Rightarrow> c_int list \<Rightarrow> 'c heap \<Rightarrow> 'c handled" where
  "handle_layer_order env cs layer_ids h = do {
     (tcs, h1) \<leftarrow> DP_transient_canvas_state_new cs h;
     ts \<leftarrow> canvas_states h1 tcs;
     tll0 \<leftarrow> layers ts;
     h2 \<leftarrow> DP_layer_list_decref tll0 h1;
     s \<leftarrow> canvas_states h2 cs;
     ll \<leftarrow> layers s;
     (r, h3) \<leftarrow> DP_layer_list_layer_reorder env ll layer_ids h2;
     ts' \<leftarrow> canvas_states h3 tcs;
     (p, h4) \<leftarrow> DP_transient_canvas_state_persist tcs
        (h3\<lparr>canvas_states := (canvas_states h3)(tcs \<mapsto> ts'\<lparr>layers := r\<rparr>)\<rparr>);
     Some (Some p, h4)
   }"

definition handle_layer_retitle :: "'c env \<Rightarrow> addr \<Rightarrow> DP_MsgLayerRetitle \<Rightarrow> 'c heap \<Rightarrow> 'c handled" where
  "handle_layer_retitle env cs mlr h = do {
     (tcs, h1) \<leftarrow> DP_transient_canvas_state_new cs h;
     (tll, h2) \<leftarrow> get_transient_layer_list tcs 0 h1;
     (ok, h3) \<leftarrow> transient_layer_list_call env
        (DP_transient_layer_list_layer_retitle (DP_msg_layer_retitle_layer_id mlr)
           (DP_msg_layer_retitle_title mlr)) tll h2;
     persist_or_decref ok tcs h3
   }"

definition handle_layer_delete ::
  "'c env \<Rightarrow> addr \<Rightarrow> c_uint \<Rightarrow> DP_MsgLayerDelete \<Rightarrow> 'c heap \<Rightarrow> 'c handled" where
  "handle_layer_delete env cs context_id mld h = do {
     (tcs, h1) \<leftarrow> DP_transient_canvas_state_new cs h;
     (tll, h2) \<leftarrow> get_transient_layer_list tcs 0 h1;
     (ok, h3) \<leftarrow> transient_layer_list_call env
        (DP_transient_layer_list_layer_delete context_id (DP_msg_layer_delete_layer_id mld)
           (DP_msg_layer_delete_merge mld)) tll h2;
     persist_or_decref ok tcs h3
   }"

definition handle_layer_visibility ::
  "'c env \<Rightarrow> addr \<Rightarrow> DP_MsgLayerVisibility \<Rightarrow> 'c heap \<Rightarrow> 'c handled" where
  "handle_layer_visibility env cs mlv h = do {
     (tcs, h1) \<leftarrow> DP_transient_canvas_state_new cs h;
     (tll, h2) \<leftarrow> get_transient_layer_list tcs 0 h1;
     (ok, h3) \<leftarrow> transient_layer_list_call env
        (DP_transient_layer_list_layer_visibility (DP_msg_layer_visibility_layer_id mlv)
           (DP_msg_layer_visibility_visible mlv)) tll h2;
     persist_or_decref ok tcs h3
   }"

definition handle_put_image ::
  "'c env \<Rightarrow> addr \<Rightarrow> c_uint \<Rightarrow> DP_MsgPutImage \<Rightarrow> 'c heap \<Rightarrow> 'c handled" where
  "handle_put_image env cs context_id mpi h =
     (let blend_mode = DP_msg_put_image_blend_mode mpi in
      if \<not> DP_blend_mode_exists env blend_mode
      then Some (None, DP_error_set ''Put image: unknown blend mode %d'' h)
      else do {
        (tcs, h1) \<leftarrow> DP_transient_canvas_state_new cs h;
        (tll, h2) \<leftarrow> get_transient_layer_list tcs 0 h1;
        (ok, h3) \<leftarrow> transient_layer_list_call env
           (DP_transient_layer_list_put_image context_id (DP_msg_put_image_layer_id mpi)
              blend_mode (DP_msg_put_image_x mpi) (DP_msg_put_image_y mpi)
              (DP_msg_put_image_width mpi) (DP_msg_put_image_height mpi)
              (DP_msg_put_image_image mpi)) tll h2;
        persist_or_decref ok tcs h3
      })"

definition handle_fill_rect ::
  "'c env \<Rightarrow> addr \<Rightarrow> c_uint \<Rightarrow> DP_MsgFillRect \<Rightarrow> 'c heap \<Rightarrow> 'c handled" where
  "handle_fill_rect env cs context_id mfr h =
     (let blend_mode = DP_msg_fill_rect_blend_mode mfr in
      if \<not> DP_blend_mode_exists env blend_mode
      then Some (None, DP_error_set ''Fill rect: unknown blend mode %d'' h)
      else if \<not> DP_blend_mode_valid_for_brush env blend_mode
      then Some (None, DP_error_set ''Fill rect: blend mode %s not applicable to brushes'' h)
      else do {
        s \<leftarrow> canvas_states h cs;
        let x = DP_msg_fill_rect_x mfr;
            y = DP_msg_fill_rect_y mfr;
            w = DP_msg_fill_rect_width mfr;
            h_px = DP_msg_fill_rect_height mfr;
            left_e = DP_max_int x 0;
            top_e = DP_max_int y 0;
            right_e = DP_min_int (x + w) (width s);
            bottom_e = DP_min_int (y + h_px) (height s)
        in if right_e \<le>s left_e \<or> bottom_e \<le>s top_e
           then Some (None, DP_error_set ''Fill rect: effective area to fill is zero'' h)
           else do {
             (tcs, h1) \<leftarrow> DP_transient_canvas_state_new cs h;
             (tll, h2) \<leftarrow> get_transient_layer_list tcs 0 h1;
             (ok, h3) \<leftarrow> transient_layer_list_call env
                (DP_transient_layer_list_fill_rect context_id (DP_msg_fill_rect_layer_id mfr)
                   blend_mode left_e top_e right_e bottom_e (DP_msg_fill_rect_color mfr)) tll h2;
             persist_or_decref ok tcs h3
           }
      })"

text \<open>\<^verbatim>\<open>handle_region_move\<close> from the line that reads the destination quad on, the mask decoded.\<close>

definition region_move_masked ::
  "'c env \<Rightarrow> addr \<Rightarrow> c_uint \<Rightarrow> DP_MsgRegionMove \<Rightarrow> DP_Image option \<Rightarrow> 'c heap \<Rightarrow> 'c handled" where
  "region_move_masked env cs context_id mrm mask_img h =
     (case DP_msg_region_move_src_rect mrm of (src_x, src_y, src_width, src_height) \<Rightarrow>
      case DP_msg_region_move_dst_quad mrm of (x1, y1, x2, y2, x3, y3, x4, y4) \<Rightarrow> do {
        let dst_quad = DP_quad_make x1 y1 x2 y2 x3 y3 x4 y4;
        s \<leftarrow> canvas_states h cs;
        let canvas_width = (scast (width s) :: c_llong);
            canvas_height = (scast (height s) :: c_llong);
            max_size = (canvas_width + 1) * (canvas_height + 1)
        in if max_size <s DP_rect_size env (DP_quad_bounds env dst_quad)
           then Some (None, DP_error_set ''Region move: attempt to scale beyond image size'' h)
           else do {
             (tcs, h1) \<leftarrow> DP_transient_canvas_state_new cs h;
             let src_rect = DP_rect_make src_x src_y src_width src_height;
             (tll, h2) \<leftarrow> get_transient_layer_list tcs 0 h1;
             (ok, h3) \<leftarrow> transient_layer_list_call env
                (DP_transient_layer_list_region_move context_id (DP_msg_region_move_layer_id mrm)
                   src_rect dst_quad mask_img) tll h2;
             persist_or_decref ok tcs h3
           }
      })"

definition handle_region_move ::
  "'c env \<Rightarrow> addr \<Rightarrow> c_uint \<Rightarrow> DP_MsgRegionMove \<Rightarrow> 'c heap \<Rightarrow> 'c handled" where
  "handle_region_move env cs context_id mrm h =
     (case DP_msg_region_move_src_rect mrm of (src_x, src_y, src_width, src_height) \<Rightarrow>
      if src_width \<le>s 0 \<or> src_height \<le>s 0
      then Some (None, DP_error_set ''Region move: selection is empty'' h)
      else
        (case DP_msg_region_move_mask mrm of
           Some in_mask \<Rightarrow> do {
             (mask_img, h1) \<leftarrow> DP_image_new_from_compressed_monochrome env
                                src_width src_height in_mask h;
             case mask_img of
               None \<Rightarrow> Some (None, h1)
             | Some m \<Rightarrow> region_move_masked env cs context_id mrm (Some m) h1
           }
         | None \<Rightarrow> region_move_masked env cs context_id mrm None h))"

text \<open>The tile of a put-tile or background message: a solid colour or a compressed tile.\<close>

definition payload_tile ::
  "'c env \<Rightarrow> c_uint \<Rightarrow> DP_TilePayload \<Rightarrow> 'c heap \<Rightarrow> addr option \<times> 'c heap" where
  "payload_tile env context_id payload h =
     (case payload of
        Payload_color color \<Rightarrow>
          (let (t, h') = DP_tile_new_from_bgra context_id color h in (Some t, h'))
      | Payload_image in_bytes \<Rightarrow>
          DP_tile_new_from_compressed env context_id in_bytes h)"

definition handle_put_tile ::
  "'c env \<Rightarrow> addr \<Rightarrow> c_uint \<Rightarrow> DP_MsgPutTile \<Rightarrow> 'c heap \<Rightarrow> 'c handled" where
  "handle_put_tile env cs context_id mpt h =
     (case payload_tile env context_id (DP_msg_put_tile_payload mpt) h of (tile, h0) \<Rightarrow>
      (case tile of
        Some t \<Rightarrow> do {
          (tcs, h1) \<leftarrow> DP_transient_canvas_state_new cs h0;
          td \<leftarrow> tiles h1 t;
          (tll, h2) \<leftarrow> get_transient_layer_list tcs 0 h1;
          (ok, h3) \<leftarrow> transient_layer_list_call env
             (DP_transient_layer_list_put_tile (tile_data td) (DP_msg_put_tile_layer_id mpt)
                (DP_msg_put_tile_sublayer_id mpt) (DP_msg_put_tile_x mpt)
                (DP_msg_put_tile_y mpt) (DP_msg_put_tile_repeat mpt)) tll h2;
          h4 \<leftarrow> DP_tile_decref t h3;
          persist_or_decref ok tcs h4
        }
      | None \<Rightarrow> Some (None, h0)))"

definition handle_canvas_background ::
  "'c env \<Rightarrow> addr \<Rightarrow> c_uint \<Rightarrow> DP_TilePayload \<Rightarrow> 'c heap \<Rightarrow> 'c handled" where
  "handle_canvas_background env cs context_id mcb h =
     (case payload_tile env context_id mcb h of (tile, h0) \<Rightarrow>
      (case tile of
        Some t \<Rightarrow> do {
          (tcs, h1) \<leftarrow> DP_transient_canvas_state_new cs h0;
          ts \<leftarrow> canvas_states h1 tcs;
          h2 \<leftarrow> DP_tile_decref_nullable (background_tile ts) h1;
          (p, h3) \<leftarrow> DP_transient_canvas_state_persist tcs
             (h2\<lparr>canvas_states := (canvas_states h2)(tcs \<mapsto> ts\<lparr>background_tile := Some t\<rparr>)\<rparr>);
          Some (Some p, h3)
        }
      | None \<Rightarrow> Some (None, h0)))"


subsection \<open>Pen up\<close>

text \<open>
  The loops of \<^verbatim>\<open>handle_pen_up\<close>. The loop state is the store, \<^verbatim>\<open>tcs\<close> (\<open>None\<close> for
  \<^verbatim>\<open>NULL\<close>) and, inside a layer, \<^verbatim>\<open>tl\<close>: the transient layer, given by the address of the list
  that holds it at index \<open>i\<close>. \<^verbatim>\<open>sll\<close> is read through them: the sublayers of layer \<open>i\<close> of the
  list at \<open>ll\<close> until \<^verbatim>\<open>tl\<close> is set, those of the transient layer afterwards. The variable
  \<^verbatim>\<open>ll\<close> is \<^verbatim>\<open>cs->layers\<close> throughout: the assignment \<^verbatim>\<open>ll = (DP_LayerList *)ll;\<close> that follows
  \<^verbatim>\<open>get_transient_layer_list\<close> leaves it as it is, so the branch ``canvas state and layer list
  are already transient'' takes \<open>ll\<close> itself for \<^verbatim>\<open>tll\<close>.
\<close>

type_synonym 'c pen_up_state = "'c heap \<times> addr option \<times> addr option"

definition pen_up_sublayer_id :: "addr \<Rightarrow> nat \<Rightarrow> 'c pen_up_state \<Rightarrow> nat \<Rightarrow> c_int option" where
  "pen_up_sublayer_id ll i st j =
     (case st of (h, tcs, tlr) \<Rightarrow> do {
        l \<leftarrow> layer_lists h (case tlr of None \<Rightarrow> ll | Some a \<Rightarrow> a);
        layer \<leftarrow> list_at (ll_layers l) i;
        sub \<leftarrow> list_at (DP_layer_sublayers_noinc layer) j;
        Some (DP_layer_id sub)
      })"

text \<open>The body of \<^verbatim>\<open>if (DP_layer_id(...) == sublayer_id)\<close>, the two counters apart.\<close>

definition pen_up_merge ::
  "'c env \<Rightarrow> addr \<Rightarrow> c_uint \<Rightarrow> addr \<Rightarrow> nat \<Rightarrow> nat \<Rightarrow> 'c pen_up_state \<Rightarrow> 'c pen_up_state option" where
  "pen_up_merge env cs context_id ll i j st =
     (case st of (h, tcs, tlr) \<Rightarrow>
        (case tlr of
           Some a \<Rightarrow> do {
             h' \<leftarrow> DP_transient_layer_merge_sublayer_at env a i context_id j h;
             Some (h', tcs, tlr)
           }
         | None \<Rightarrow> do {
             (tll, h1, tcs1) \<leftarrow>
               (case tcs of
                  Some t \<Rightarrow> Some (ll, h, tcs)
                | None \<Rightarrow> do {
                    (t, h1) \<leftarrow> DP_transient_canvas_state_new cs h;
                    (tll, h2) \<leftarrow> get_transient_layer_list t 0 h1;
                    Some (tll, h2, Some t)
                  });
             h2 \<leftarrow> DP_transient_layer_list_transient_at tll i h1;
             h3 \<leftarrow> DP_transient_layer_merge_sublayer_at env tll i context_id j h2;
             Some (h3, tcs1, Some tll)
           }))"

function pen_up_sublayers ::
  "'c env \<Rightarrow> addr \<Rightarrow> c_uint \<Rightarrow> addr \<Rightarrow> nat \<Rightarrow> 'c pen_up_state \<Rightarrow> nat \<Rightarrow> nat
     \<Rightarrow> 'c pen_up_state option" where
  "pen_up_sublayers env cs context_id ll i st sublayer_count j =
     (if j < sublayer_count
      then (case pen_up_sublayer_id ll i st j of
              None \<Rightarrow> None
            | Some lid \<Rightarrow>
                if lid = DP_uint_to_int context_id
                then (case pen_up_merge env cs context_id ll i j st of
                        None \<Rightarrow> None
                      | Some st' \<Rightarrow>
                          pen_up_sublayers env cs context_id ll i st' (sublayer_count - 1) j)
                else pen_up_sublayers env cs context_id ll i st sublayer_count (j + 1))
      else Some st)"
  by pat_completeness auto
termination
  by (relation "measure (\<lambda>(env, cs, context_id, ll, i, st, sublayer_count, j). sublayer_count - j)")
     auto

function pen_up_layers ::
  "'c env \<Rightarrow> addr \<Rightarrow> c_uint \<Rightarrow> addr \<Rightarrow> nat \<Rightarrow> 'c heap \<times> addr option \<Rightarrow> nat
     \<Rightarrow> ('c heap \<times> addr option) option" where
  "pen_up_layers env cs context_id ll layer_count st i =
     (if i < layer_count
      then (case st of (h, tcs) \<Rightarrow>
              (case layer_lists h ll of
                 None \<Rightarrow> None
               | Some l \<Rightarrow>
                   (case list_at (ll_layers l) i of
                      None \<Rightarrow> None
                    | Some layer \<Rightarrow>
                        (case pen_up_sublayers env cs context_id ll i (h, tcs, None)
                                (length (DP_layer_sublayers_noinc layer)) 0 of
                           None \<Rightarrow> None
                         | Some (h', tcs', tlr') \<Rightarrow>
                             pen_up_layers env cs context_id ll layer_count (h', tcs') (i + 1)))))
      else Some st)"
  by pat_completeness auto
termination
  by (relation "measure (\<lambda>(env, cs, context_id, ll, layer_count, st, i). layer_count - i)") auto

definition handle_pen_up :: "'c env \<Rightarrow> addr \<Rightarrow> c_uint \<Rightarrow> 'c heap \<Rightarrow> 'c handled" where
  "handle_pen_up env cs context_id h = do {
     s \<leftarrow> canvas_states h cs;
     ll \<leftarrow> layers s;
     l \<leftarrow> layer_lists h ll;
     (h', tcs) \<leftarrow> pen_up_layers env cs context_id ll (length (ll_layers l)) (h, None) 0;
     case tcs of
       Some t \<Rightarrow> do { (p, h'') \<leftarrow> DP_transient_canvas_state_persist t h'; Some (Some p, h'') }
     | None \<Rightarrow> do { h'' \<leftarrow> DP_canvas_state_incref cs h'; Some (Some cs, h'') }
   }"

subsection \<open>Draw dabs\<close>

definition get_classic_dabs :: "DP_MsgDrawDabs \<Rightarrow> DP_Dab list \<times> c_int" where
  "get_classic_dabs mdd = (DP_msg_draw_dabs_dabs mdd, of_nat (length (DP_msg_draw_dabs_dabs mdd)))"

definition get_pixel_dabs :: "DP_MsgDrawDabs \<Rightarrow> DP_Dab list \<times> c_int" where
  "get_pixel_dabs mdd = (DP_msg_draw_dabs_dabs mdd, of_nat (length (DP_msg_draw_dabs_dabs mdd)))"

definition handle_draw_dabs ::
  "'c env \<Rightarrow> addr \<Rightarrow> DP_DrawDabsType \<Rightarrow> c_uint \<Rightarrow> DP_MsgDrawDabs
     \<Rightarrow> (DP_MsgDrawDabs \<Rightarrow> DP_Dab list \<times> c_int) \<Rightarrow> 'c heap \<Rightarrow> 'c handled" where
  "handle_draw_dabs env cs type context_id mdd get_dabs h =
     (let blend_mode = DP_msg_draw_dabs_blend_mode mdd in
      if \<not> DP_blend_mode_exists env blend_mode
      then Some (None, DP_error_set ''Draw dabs: unknown blend mode %d'' h)
      else if \<not> DP_blend_mode_valid_for_brush env blend_mode
      then Some (None, DP_error_set ''Draw dabs: blend mode %s not applicable to brushes'' h)
      else
        case get_dabs mdd of (dabs, dab_count) \<Rightarrow>
        if dab_count <s 1
        then do { h' \<leftarrow> DP_canvas_state_incref cs h; Some (Some cs, h') }
        else
          let color = DP_msg_draw_dabs_color mdd;
              (sublayer_id, sublayer_opacity, sublayer_blend_mode, dabs_blend_mode) =
                (if DP_msg_draw_dabs_indirect mdd
                 then (DP_uint_to_int context_id,
                       DP_uint32_to_int (drop_bit 24 (color AND 0xff000000)),
                       blend_mode, DP_BLEND_MODE_NORMAL env)
                 else (0, - 1, - 1, blend_mode));
              params = \<lparr>params_type = type, params_context_id = context_id,
                        params_origin_x = DP_msg_draw_dabs_origin_x mdd,
                        params_origin_y = DP_msg_draw_dabs_origin_y mdd,
                        params_color = color, params_blend_mode = dabs_blend_mode,
                        params_dab_count = dab_count, params_dabs = dabs\<rparr>
          in do {
            (tcs, h1) \<leftarrow> DP_transient_canvas_state_new cs h;
            let layer_id = DP_msg_draw_dabs_layer_id mdd;
            (tll, h2) \<leftarrow> get_transient_layer_list tcs 0 h1;
            (ok, h3) \<leftarrow> transient_layer_list_call env
               (DP_transient_layer_list_draw_dabs layer_id sublayer_id sublayer_blend_mode
                  sublayer_opacity params) tll h2;
            persist_or_decref ok tcs h3
          })"

subsection \<open>The dispatcher\<close>

definition DP_canvas_state_handle :: "'c env \<Rightarrow> addr \<Rightarrow> DP_Message \<Rightarrow> 'c heap \<Rightarrow> 'c handled" where
  "DP_canvas_state_handle env cs msg h = do {
     s \<leftarrow> canvas_states h cs;
     DP_ASSERT (refcount s > 0);
     DP_ASSERT (\<not> transient s);
     case DP_message_body msg of
       DP_MSG_CANVAS_RESIZE mcr \<Rightarrow> handle_canvas_resize env cs (DP_message_context_id msg) mcr h
     | DP_MSG_LAYER_CREATE mlc \<Rightarrow> handle_layer_create env cs (DP_message_context_id msg) mlc h
     | DP_MSG_LAYER_ATTR mla \<Rightarrow> handle_layer_attr env cs mla h
     | DP_MSG_LAYER_ORDER mlo \<Rightarrow> handle_layer_order env cs mlo h
     | DP_MSG_LAYER_RETITLE mlr \<Rightarrow> handle_layer_retitle env cs mlr h
     | DP_MSG_LAYER_DELETE mld \<Rightarrow> handle_layer_delete env cs (DP_message_context_id msg) mld h
     | DP_MSG_LAYER_VISIBILITY mlv \<Rightarrow> handle_layer_visibility env cs mlv h
     | DP_MSG_PUT_IMAGE mpi \<Rightarrow> handle_put_image env cs (DP_message_context_id msg) mpi h
     | DP_MSG_FILL_RECT mfr \<Rightarrow> handle_fill_rect env cs (DP_message_context_id msg) mfr h
     | DP_MSG_REGION_MOVE mrm \<Rightarrow> handle_region_move env cs (DP_message_context_id msg) mrm h
     | DP_MSG_PUT_TILE mpt \<Rightarrow> handle_put_tile env cs (DP_message_context_id msg) mpt h
     | DP_MSG_CANVAS_BACKGROUND mcb \<Rightarrow>
         handle_canvas_background env cs (DP_message_context_id msg) mcb h
     | DP_MSG_PEN_UP \<Rightarrow> handle_pen_up env cs (DP_message_context_id msg) h
     | DP_MSG_DRAW_DABS_CLASSIC mdd \<Rightarrow>
         handle_draw_dabs env cs Dabs_classic (DP_message_context_id msg) mdd get_classic_dabs h
     | DP_MSG_DRAW_DABS_PIXEL mdd \<Rightarrow>
         handle_draw_dabs env cs Dabs_pixel (DP_message_context_id msg) mdd get_pixel_dabs h
     | DP_MSG_DRAW_DABS_PIXEL_SQUARE mdd \<Rightarrow>
         handle_draw_dabs env cs Dabs_pixel_square (DP_message_context_id msg) mdd
           get_pixel_dabs h
     | DP_MSG_OTHER \<Rightarrow> Some (None, DP_error_set ''Unhandled draw message type %d'' h)
   }"

subsection \<open>Diffing two canvas states\<close>

definition diff_states ::
  "'c env \<Rightarrow> addr \<Rightarrow> addr \<Rightarrow> DP_CanvasDiff \<Rightarrow> 'c heap \<Rightarrow> DP_CanvasDiff option" where
  "diff_states env cs prev diff h = do {
     s \<leftarrow> canvas_states h cs;
     p \<leftarrow> canvas_states h prev;
     if background_tile s \<noteq> background_tile p \<or> width s \<noteq> width p \<or> height s \<noteq> height p
     then Some (DP_canvas_diff_check_all diff)
     else do {
       ll \<leftarrow> layers s;
       l \<leftarrow> layer_lists h ll;
       pll \<leftarrow> layers p;
       pl \<leftarrow> layer_lists h pll;
       Some (layer_list_diff env (ll_layers l) (ll_layers pl) diff)
     }
   }"

text \<open>
  canvas_state.c calls \<^verbatim>\<open>DP_canvas_diff_begin\<close> with five arguments, canvas_diff.c defines it
  with a sixth, \<^verbatim>\<open>layer_props_changed\<close>: the value passed for it is the parameter \<open>lpc\<close>.
\<close>

definition DP_canvas_state_diff ::
  "'c env \<Rightarrow> addr \<Rightarrow> addr option \<Rightarrow> DP_CanvasDiff \<Rightarrow> bool \<Rightarrow> 'c heap \<Rightarrow> DP_CanvasDiff option" where
  "DP_canvas_state_diff env cs prev_or_null diff lpc h = do {
     s \<leftarrow> canvas_states h cs;
     DP_ASSERT (refcount s > 0);
     case prev_or_null of
       Some prev \<Rightarrow> do {
         p \<leftarrow> canvas_states h prev;
         DP_ASSERT (refcount p > 0);
         d \<leftarrow> DP_canvas_diff_begin diff (width p) (height p) (width s) (height s) lpc;
         if cs \<noteq> prev then diff_states env cs prev d h else Some d
       }
     | None \<Rightarrow> DP_canvas_diff_begin diff 0 0 (width s) (height s) lpc
   }"


section \<open>Well-formed stores and examples\<close>

text \<open>
  In a well-formed store nothing lives at or beyond \<open>next_addr\<close>. A snapshot is a canvas
  state that is live and persistent, with a live persistent layer list and, if it has a
  background tile, a live one.
\<close>

definition heap_wf :: "'c heap \<Rightarrow> bool" where
  "heap_wf h \<longleftrightarrow>
     (\<forall>a. next_addr h \<le> a \<longrightarrow>
        canvas_states h a = None \<and> layer_lists h a = None \<and> tiles h a = None)"

definition tile_ok :: "'c heap \<Rightarrow> addr option \<Rightarrow> bool" where
  "tile_ok h t_or_null \<longleftrightarrow>
     (case t_or_null of
        None \<Rightarrow> True
      | Some t \<Rightarrow> (case tiles h t of None \<Rightarrow> False | Some tile \<Rightarrow> 0 < tile_refcount tile))"

definition layer_list_ok :: "'c heap \<Rightarrow> addr option \<Rightarrow> bool" where
  "layer_list_ok h ll_or_null \<longleftrightarrow>
     (case ll_or_null of
        None \<Rightarrow> False
      | Some ll \<Rightarrow>
          (case layer_lists h ll of
             None \<Rightarrow> False
           | Some l \<Rightarrow> 0 < ll_refcount l \<and> \<not> ll_transient l))"

definition snapshot_ok :: "'c heap \<Rightarrow> addr \<Rightarrow> bool" where
  "snapshot_ok h cs \<longleftrightarrow>
     (case canvas_states h cs of
        None \<Rightarrow> False
      | Some s \<Rightarrow>
          0 < refcount s \<and> \<not> transient s \<and> tile_ok h (background_tile s) \<and>
          layer_list_ok h (layers s))"

text \<open>The layers of the snapshot at \<open>cs\<close> (the empty list if there is none).\<close>

definition snapshot_layers :: "'c heap \<Rightarrow> addr \<Rightarrow> 'c DP_Layer list" where
  "snapshot_layers h cs =
     (case canvas_states h cs of
        None \<Rightarrow> []
      | Some s \<Rightarrow>
          (case layers s of
             None \<Rightarrow> []
           | Some ll \<Rightarrow> (case layer_lists h ll of None \<Rightarrow> [] | Some l \<Rightarrow> ll_layers l)))"

text \<open>
  The objects of two stores are the same: only \<open>next_addr\<close> and the messages recorded may
  differ.
\<close>

definition same_objects :: "'c heap \<Rightarrow> 'c heap \<Rightarrow> bool" where
  "same_objects h h' \<longleftrightarrow>
     canvas_states h' = canvas_states h \<and> layer_lists h' = layer_lists h \<and> tiles h' = tiles h"

text \<open>The result is the input snapshot itself, its reference count one higher.\<close>

definition same_snapshot :: "'c heap \<Rightarrow> addr \<Rightarrow> addr \<Rightarrow> 'c heap \<Rightarrow> bool" where
  "same_snapshot h cs p h' \<longleftrightarrow>
     p = cs \<and> layer_lists h' = layer_lists h \<and> tiles h' = tiles h \<and>
     (case canvas_states h cs of
        None \<Rightarrow> False
      | Some s \<Rightarrow> canvas_states h' = (canvas_states h)(cs \<mapsto> s\<lparr>refcount := refcount s + 1\<rparr>))"

text \<open>
  The result is a new canvas state: an address not in use before, holding a persistent
  state of count one whose layer list is persistent.
\<close>

definition fresh_snapshot :: "'c heap \<Rightarrow> addr \<Rightarrow> 'c heap \<Rightarrow> bool" where
  "fresh_snapshot h p h' \<longleftrightarrow>
     canvas_states h p = None \<and>
     (case canvas_states h' p of
        None \<Rightarrow> False
      | Some s' \<Rightarrow>
          refcount s' = 1 \<and> \<not> transient s' \<and>
          (case layers s' of
             None \<Rightarrow> False
           | Some ll \<Rightarrow>
               (case layer_lists h' ll of None \<Rightarrow> False | Some l \<Rightarrow> \<not> ll_transient l)))"

text \<open>The canvas state at \<open>p\<close> in \<open>h'\<close> has the size and the background tile of the one at \<open>cs\<close> in \<open>h\<close>.\<close>

definition same_canvas :: "'c heap \<Rightarrow> addr \<Rightarrow> 'c heap \<Rightarrow> addr \<Rightarrow> bool" where
  "same_canvas h cs h' p \<longleftrightarrow>
     (case canvas_states h cs of
        None \<Rightarrow> False
      | Some s \<Rightarrow>
          (case canvas_states h' p of
             None \<Rightarrow> False
           | Some s' \<Rightarrow>
               width s' = width s \<and> height s' = height s \<and>
               background_tile s' = background_tile s))"

text \<open>
  Modelled from the spec: \<^verbatim>\<open>DP_layer_list_layer_reorder\<close> (layer_list.c) is not among the
  sources. By the spec it ``reorders to match the supplied permutation of existing IDs;
  unknown IDs cause failure'': each id is looked up, and one that is missing fails the whole.
\<close>

definition spec_layer_reorder :: "'c DP_Layer list \<Rightarrow> c_int list \<Rightarrow> 'c DP_Layer list option" where
  "spec_layer_reorder ls ids = those (map (\<lambda>i. find (\<lambda>l. DP_layer_id l = i) ls) ids)"

text \<open>
  An environment for the examples. Blend modes 0, 1, 2 and 255 exist, 255 is not for brushes;
  an operation on a layer list succeeds on a list with a layer; the inflater rejects every
  payload; a collaborator that fails records a message; merging a sublayer adds its content
  (a number) to its parent's.
\<close>

definition example_env :: "nat env" where
  "example_env = \<lparr>
     DP_blend_mode_exists = (\<lambda>b. b = 0 \<or> b = 1 \<or> b = 2 \<or> b = 255),
     DP_blend_mode_valid_for_brush = (\<lambda>b. b = 0 \<or> b = 1 \<or> b = 2),
     DP_BLEND_MODE_NORMAL = 1,
     DP_MSG_LAYER_CREATE_FLAG_INSERT = 2,
     DP_MSG_LAYER_CREATE_FLAG_COPY = 1,
     DP_MSG_LAYER_ATTR_FLAG_CENSORED = 1,
     DP_MSG_LAYER_ATTR_FLAG_FIXED = 2,
     DP_compress_inflate = (\<lambda>bs. None),
     inflate_error = (\<lambda>bs. Some ''Inflate: payload rejected''),
     DP_quad_bounds = (\<lambda>q. case q of DP_quad_make x1 y1 x2 y2 x3 y3 x4 y4 \<Rightarrow>
                          DP_rect_make x1 y1 (x3 - x1) (y3 - y1)),
     DP_rect_size = (\<lambda>r. case r of DP_rect_make x y w h \<Rightarrow> scast w * scast h),
     layer_list_op = (\<lambda>c ls. if ls = [] then None else Some ls),
     layer_list_error = (\<lambda>c ls. Some ''Layer list: operation refused''),
     layer_list_resize = (\<lambda>c t r b l ls. ls),
     layer_reorder = spec_layer_reorder,
     layer_list_diff = (\<lambda>a b d. d),
     merge_content = (\<lambda>c l s. DP_layer_content l + DP_layer_content s)\<rparr>"

text \<open>
  A store with one snapshot at address 0, 100 by 80 pixels, without a background tile; its
  layer list at address 1 has the layers 1 and 2, each with a sublayer of id 7.
\<close>

definition example_heap :: "nat heap" where
  "example_heap = \<lparr>
     canvas_states = [0 \<mapsto> \<lparr>refcount = 1, transient = False, width = 100, height = 80,
                            background_tile = None, layers = Some 1\<rparr>],
     layer_lists = [1 \<mapsto> \<lparr>ll_refcount = 1, ll_transient = False,
        ll_layers = [DP_Layer 1 10 [DP_Layer 7 1 []], DP_Layer 2 20 [DP_Layer 7 2 []]]\<rparr>],
     tiles = Map.empty,
     next_addr = 2,
     errors = []\<rparr>"


definition failed_untouched :: "'c heap \<Rightarrow> 'c handled \<Rightarrow> bool" where
  "failed_untouched h res \<longleftrightarrow>
     (case res of
        None \<Rightarrow> False
      | Some (r, h') \<Rightarrow> (case r of Some p \<Rightarrow> False | None \<Rightarrow> h'\<lparr>errors := errors h\<rparr> = h))"

text \<open>A message has been recorded between two stores.\<close>

definition error_set :: "'c heap \<Rightarrow> 'c heap \<Rightarrow> bool" where
  "error_set h h' \<longleftrightarrow> length (errors h) < length (errors h')"

text \<open>The size of the snapshot that a handler returned.\<close>

definition result_size :: "'c handled \<Rightarrow> (c_int \<times> c_int) option" where
  "result_size res =
     (case res of
        None \<Rightarrow> None
      | Some (r, h') \<Rightarrow>
          (case r of
             None \<Rightarrow> None
           | Some p \<Rightarrow> map_option (\<lambda>s. (width s, height s)) (canvas_states h' p)))"

text \<open>
  The example store with a sublayer of user 7 in layer 1 only.
\<close>

definition one_sublayer_heap :: "nat heap" where
  "one_sublayer_heap = example_heap\<lparr>layer_lists :=
     [1 \<mapsto> \<lparr>ll_refcount = 1, ll_transient = False,
        ll_layers = [DP_Layer 1 10 [DP_Layer 7 1 []], DP_Layer 2 20 []]\<rparr>]\<rparr>"

text \<open>
  The outcomes of a handler: a failure with an error set that leaves the objects of the
  store as they were, or a new snapshot; or the input snapshot itself.
\<close>

definition outcome_new_or_failure :: "'c heap \<Rightarrow> 'c handled \<Rightarrow> bool" where
  "outcome_new_or_failure h res \<longleftrightarrow>
     (case res of
        None \<Rightarrow> False
      | Some (r, h') \<Rightarrow>
          (case r of
             None \<Rightarrow> same_objects h h' \<and> error_set h h'
           | Some p \<Rightarrow> fresh_snapshot h p h'))"

definition outcome_input :: "'c heap \<Rightarrow> addr \<Rightarrow> 'c handled \<Rightarrow> bool" where
  "outcome_input h cs res \<longleftrightarrow>
     (case res of
        None \<Rightarrow> False
      | Some (r, h') \<Rightarrow> (case r of None \<Rightarrow> False | Some p \<Rightarrow> same_snapshot h cs p h'))"

definition pen_up_or_draw_dabs :: "DP_MessageBody \<Rightarrow> bool" where
  "pen_up_or_draw_dabs body \<longleftrightarrow>
     (case body of
        DP_MSG_PEN_UP \<Rightarrow> True
      | DP_MSG_DRAW_DABS_CLASSIC mdd \<Rightarrow> True
      | DP_MSG_DRAW_DABS_PIXEL mdd \<Rightarrow> True
      | DP_MSG_DRAW_DABS_PIXEL_SQUARE mdd \<Rightarrow> True
      | _ \<Rightarrow> False)"

text \<open>
  None of the sums and negations of a canvas resize overflows: \<open>-top\<close>, \<open>-left\<close>,
  \<open>width + right\<close>, \<open>height + bottom\<close>, \<open>width + right + left\<close> and
  \<open>height + bottom + top\<close> are numbers that an \<^verbatim>\<open>int\<close> holds.
\<close>

definition resize_fits :: "DP_CanvasState \<Rightarrow> DP_MsgCanvasResize \<Rightarrow> bool" where
  "resize_fits s mcr \<longleftrightarrow>
     fits_int (- sint (DP_msg_canvas_resize_top mcr)) \<and>
     fits_int (- sint (DP_msg_canvas_resize_left mcr)) \<and>
     fits_int (sint (width s) + sint (DP_msg_canvas_resize_right mcr)) \<and>
     fits_int (sint (height s) + sint (DP_msg_canvas_resize_bottom mcr)) \<and>
     fits_int (sint (width s) + sint (DP_msg_canvas_resize_right mcr)
               + sint (DP_msg_canvas_resize_left mcr)) \<and>
     fits_int (sint (height s) + sint (DP_msg_canvas_resize_bottom mcr)
               + sint (DP_msg_canvas_resize_top mcr))"

text \<open>
  The collaborators that are not among the sources record a message when they fail.
\<close>

definition collaborators_report :: "'c env \<Rightarrow> bool" where
  "collaborators_report env \<longleftrightarrow>
     (\<forall>call ls. layer_list_op env call ls = None \<longrightarrow> layer_list_error env call ls \<noteq> None) \<and>
     (\<forall>bs. DP_compress_inflate env bs = None \<longrightarrow> inflate_error env bs \<noteq> None)"

text \<open>
  At most one layer of the snapshot holds a sublayer of the user of a pen-up message (any
  other message passes).
\<close>

definition pen_up_in_one_layer :: "'c heap \<Rightarrow> addr \<Rightarrow> DP_Message \<Rightarrow> bool" where
  "pen_up_in_one_layer h cs msg \<longleftrightarrow>
     (case DP_message_body msg of
        DP_MSG_PEN_UP \<Rightarrow>
          length (filter
            (\<lambda>l. list_ex (\<lambda>sub. DP_layer_id sub = DP_uint_to_int (DP_message_context_id msg))
                   (DP_layer_sublayers_noinc l))
            (snapshot_layers h cs)) \<le> 1
      | _ \<Rightarrow> True)"

text \<open>
  The reorder of a layer-order message returns a list (any other message passes).
\<close>

definition reorder_returns_list :: "'c env \<Rightarrow> 'c heap \<Rightarrow> addr \<Rightarrow> DP_MessageBody \<Rightarrow> bool" where
  "reorder_returns_list env h cs body \<longleftrightarrow>
     (case body of
        DP_MSG_LAYER_ORDER layer_ids \<Rightarrow> layer_reorder env (snapshot_layers h cs) layer_ids \<noteq> None
      | _ \<Rightarrow> True)"

text \<open>
  The invariant of the loops of \<^verbatim>\<open>handle_pen_up\<close>, started in the store \<open>h0\<close> on the list at
  \<open>ll\<close>: the list keeps its length; while \<^verbatim>\<open>tcs\<close> is \<^verbatim>\<open>NULL\<close> the store is \<open>h0\<close>; once it is
  set it is the first address handed out, a transient state of count one whose layer list,
  at the next address, has the length of the list at \<open>ll\<close>. Inside layer \<open>i\<close>, \<^verbatim>\<open>tl\<close> is in one
  of the two lists and \<open>n\<close> sublayers are left.
\<close>

definition list_len :: "'c heap \<Rightarrow> addr \<Rightarrow> nat option" where
  "list_len h a = map_option (\<lambda>l. length (ll_layers l)) (layer_lists h a)"

definition sublayer_len :: "'c heap \<Rightarrow> addr \<Rightarrow> nat \<Rightarrow> nat option" where
  "sublayer_len h a i =
     (case layer_lists h a of
        None \<Rightarrow> None
      | Some l \<Rightarrow>
          if i < length (ll_layers l)
          then Some (length (DP_layer_sublayers_noinc (ll_layers l ! i)))
          else None)"

definition pen_up_inv :: "'c heap \<Rightarrow> addr \<Rightarrow> 'c heap \<Rightarrow> addr option \<Rightarrow> bool" where
  "pen_up_inv h0 ll h tcs \<longleftrightarrow>
     list_len h ll = list_len h0 ll \<and> list_len h0 ll \<noteq> None \<and>
     (case tcs of
        None \<Rightarrow> h = h0
      | Some t \<Rightarrow>
          t = next_addr h0 \<and> ll \<noteq> Suc t \<and> list_len h (Suc t) = list_len h0 ll \<and>
          (case canvas_states h t of
             None \<Rightarrow> False
           | Some ts \<Rightarrow> refcount ts = 1 \<and> transient ts \<and> layers ts = Some (Suc t)))"

definition pen_up_st_inv :: "'c heap \<Rightarrow> addr \<Rightarrow> nat \<Rightarrow> nat \<Rightarrow> 'c pen_up_state \<Rightarrow> bool" where
  "pen_up_st_inv h0 ll i n st \<longleftrightarrow>
     (case st of (h, tcs, tlr) \<Rightarrow>
        pen_up_inv h0 ll h tcs \<and>
        (tlr = None \<or> tcs \<noteq> None \<and> (tlr = Some ll \<or> tlr = Some (Suc (next_addr h0)))) \<and>
        sublayer_len h (case tlr of None \<Rightarrow> ll | Some a \<Rightarrow> a) i = Some n)"

text \<open>The sequence most handlers share, named for the proofs.\<close>

definition transient_op :: "'c env \<Rightarrow> addr \<Rightarrow> c_int \<Rightarrow> DP_LayerListCall \<Rightarrow> 'c heap \<Rightarrow> 'c handled" where
  "transient_op env cs reserve call h = do {
     (tcs, h1) \<leftarrow> DP_transient_canvas_state_new cs h;
     (tll, h2) \<leftarrow> get_transient_layer_list tcs reserve h1;
     (ok, h3) \<leftarrow> transient_layer_list_call env call tll h2;
     persist_or_decref ok tcs h3
   }"

section \<open>Properties\<close>

subsection \<open>Machine arithmetic\<close>

lemma sint32_bounds: "- 2147483648 \<le> sint (w :: c_int) \<and> sint w < 2147483648"
  using sint_ge[of w] sint_lt[of w] by simp

lemma sint_scast_llong: "sint (scast (w :: c_int) :: c_llong) = sint w"
  by (rule sint_up_scast) (simp add: is_up)

lemma sint_word_of_int_32:
  "- 2147483648 \<le> k \<Longrightarrow> k < 2147483648 \<Longrightarrow> sint (word_of_int k :: c_int) = k"
  by (simp add: sint_sbintrunc' signed_take_bit_int_eq_self)

lemma sint_llong_plus1: "sint ((scast (w :: c_int) :: c_llong) + 1) = sint w + 1"
proof -
  have "sint ((scast w :: c_llong) + 1) = signed_take_bit 63 (sint (scast w :: c_llong) + sint (1 :: c_llong))"
    by (simp add: sint_word_ariths)
  also have "\<dots> = signed_take_bit 63 (sint w + 1)"
    by (simp add: sint_scast_llong)
  also have "\<dots> = sint w + 1"
    using sint32_bounds[of w] by (intro signed_take_bit_int_eq_self) auto
  finally show ?thesis .
qed

lemma sint_llong_product:
  fixes w h :: c_int
  shows "sint ((scast w + 1) * (scast h + 1) :: c_llong) = (sint w + 1) * (sint h + 1)"
proof -
  let ?a = "sint w + 1" and ?b = "sint h + 1"
  have a: "\<bar>?a\<bar> \<le> 2147483648" and b: "\<bar>?b\<bar> \<le> 2147483648"
    using sint32_bounds[of w] sint32_bounds[of h] by auto
  have "\<bar>?a * ?b\<bar> \<le> 2147483648 * 2147483648"
    unfolding abs_mult using a b by (intro mult_mono) auto
  then have r: "- (2 ^ 63) \<le> ?a * ?b" "?a * ?b < 2 ^ 63"
    by auto
  have "sint ((scast w + 1) * (scast h + 1) :: c_llong) = signed_take_bit 63 (?a * ?b)"
    using sint_word_ariths(3)[of "scast w + 1 :: c_llong" "scast h + 1"]
    unfolding sint_llong_plus1 by (simp add: word_size)
  also have "\<dots> = ?a * ?b"
    using r by (rule signed_take_bit_int_eq_self)
  finally show ?thesis .
qed


text \<open>A sum and a negation that an \<^verbatim>\<open>int\<close> holds are the mathematical ones: they do not wrap.\<close>

lemma sint_add_fits:
  fixes a b :: c_int
  assumes "fits_int (sint a + sint b)"
  shows "sint (a + b) = sint a + sint b"
proof -
  have "sint (a + b) = signed_take_bit 31 (sint a + sint b)"
    using sint_word_ariths(1)[of a b] by (simp add: word_size)
  also have "\<dots> = sint a + sint b"
    using assms by (intro signed_take_bit_int_eq_self) (auto simp: fits_int_def)
  finally show ?thesis .
qed

lemma sint_minus_fits:
  fixes a :: c_int
  assumes "fits_int (- sint a)"
  shows "sint (- a) = - sint a"
proof -
  have "sint (- a) = signed_take_bit 31 (- sint a)"
    using sint_word_ariths(4)[of a] by (simp add: word_size)
  also have "\<dots> = - sint a"
    using assms by (intro signed_take_bit_int_eq_self) (auto simp: fits_int_def)
  finally show ?thesis .
qed

subsection \<open>The store\<close>

lemma bind_DP_ASSERT [simp]: "(DP_ASSERT b \<bind> f) = (if b then f () else None)"
  by (simp add: DP_ASSERT_def)

lemmas store_defs =
  DP_error_set_def collaborator_error_def DP_transient_canvas_state_new_def allocate_canvas_state_def DP_tile_incref_nullable_def
  DP_tile_incref_def DP_tile_decref_def DP_tile_decref_nullable_def DP_layer_list_incref_def
  DP_layer_list_decref_def get_transient_layer_list_def DP_transient_layer_list_new_def
  transient_layer_list_call_def persist_or_decref_def DP_transient_canvas_state_decref_def
  DP_canvas_state_decref_def DP_transient_canvas_state_persist_def
  DP_transient_layer_list_persist_def DP_canvas_state_incref_def

lemmas outcome_defs = same_objects_def fresh_snapshot_def same_canvas_def snapshot_layers_def

lemma heap_wf_fresh:
  "heap_wf h \<Longrightarrow> canvas_states h (next_addr h) = None \<and> layer_lists h (next_addr h) = None
     \<and> tiles h (next_addr h) = None \<and> canvas_states h (Suc (next_addr h)) = None
     \<and> layer_lists h (Suc (next_addr h)) = None \<and> tiles h (Suc (next_addr h)) = None
     \<and> canvas_states h (Suc (Suc (next_addr h))) = None
     \<and> layer_lists h (Suc (Suc (next_addr h))) = None \<and> tiles h (Suc (Suc (next_addr h))) = None"
  by (simp add: heap_wf_def)

lemma heap_wf_live:
  assumes "heap_wf h"
  shows "canvas_states h a = Some s \<Longrightarrow> a < next_addr h"
    and "layer_lists h b = Some l \<Longrightarrow> b < next_addr h"
    and "tiles h c = Some t \<Longrightarrow> c < next_addr h"
  using assms by (auto simp: heap_wf_def not_le[symmetric])

lemma snapshot_okE:
  assumes "snapshot_ok h cs"
  obtains s ll l where "canvas_states h cs = Some s" "0 < refcount s" "\<not> transient s"
    "layers s = Some ll" "layer_lists h ll = Some l" "0 < ll_refcount l" "\<not> ll_transient l"
    "tile_ok h (background_tile s)" "snapshot_layers h cs = ll_layers l"
  using assms
  by (auto simp: snapshot_ok_def layer_list_ok_def snapshot_layers_def split: option.splits)

lemma tile_okE:
  assumes "tile_ok h (Some t)"
  obtains tile where "tiles h t = Some tile" "0 < tile_refcount tile"
  using assms by (auto simp: tile_ok_def split: option.splits)

lemma transient_op_result:
  assumes wf: "heap_wf h" and ok: "snapshot_ok h cs" and r: "0 \<le>s reserve"
  shows "case layer_list_op env call (snapshot_layers h cs) of
           None \<Rightarrow>
             (\<exists>h'. transient_op env cs reserve call h = Some (None, h') \<and> same_objects h h'
                \<and> errors h' = errors (collaborator_error
                                  (layer_list_error env call (snapshot_layers h cs)) h))
         | Some ls \<Rightarrow>
             (\<exists>h'. transient_op env cs reserve call h = Some (Some (next_addr h), h')
                \<and> fresh_snapshot h (next_addr h) h'
                \<and> snapshot_layers h' (next_addr h) = ls
                \<and> same_canvas h cs h' (next_addr h)
                \<and> errors h' = errors h)"
proof -
  from ok obtain s ll l where s: "canvas_states h cs = Some s" "0 < refcount s" "\<not> transient s"
    "layers s = Some ll" "layer_lists h ll = Some l" "0 < ll_refcount l" "\<not> ll_transient l"
    and bg: "tile_ok h (background_tile s)" and sl: "snapshot_layers h cs = ll_layers l"
    by (rule snapshot_okE)
  from wf s have ne: "cs \<noteq> next_addr h" "ll \<noteq> next_addr h" "ll \<noteq> Suc (next_addr h)"
    using heap_wf_live[OF wf] by fastforce+
  note fr = heap_wf_fresh[OF wf]
  show ?thesis
  proof (cases "background_tile s")
    case None
    with s r ne fr sl show ?thesis
      by (auto simp: transient_op_def store_defs outcome_defs fun_upd_twist split: option.splits)
  next
    case (Some t)
    with bg obtain tile where t: "tiles h t = Some tile" "0 < tile_refcount tile"
      by (auto elim: tile_okE)
    with wf have "t \<noteq> next_addr h" using heap_wf_live[OF wf] by fastforce
    with Some t s r ne fr sl show ?thesis
      by (auto simp: transient_op_def store_defs outcome_defs fun_upd_twist split: option.splits)
  qed
qed


subsection \<open>Loops over a buffer\<close>

lemma fold_list_update_all:
  "n \<le> length xs \<Longrightarrow> fold (\<lambda>i tc. tc[i := v]) [0..<n] xs = replicate n v @ drop n xs"
proof (induction n)
  case 0
  then show ?case by simp
next
  case (Suc n)
  then have "fold (\<lambda>i tc. tc[i := v]) [0..<Suc n] xs = (replicate n v @ drop n xs)[n := v]"
    by simp
  also have "\<dots> = replicate n v @ (drop n xs)[0 := v]"
    by (simp add: list_update_append)
  also have "(drop n xs)[0 := v] = v # drop (Suc n) xs"
    using Suc.prems by (cases "drop n xs") (auto simp: drop_Suc tl_drop Cons_nth_drop_Suc[symmetric])
  finally show ?case by (simp add: replicate_app_Cons_same)
qed


subsection \<open>Subimages\<close>

text \<open>
  Claim C10. The claim says that for every non-negative requested size the copy region that
  \<^verbatim>\<open>DP_image_new_subimage\<close> computes meets the assertions of \<^verbatim>\<open>copy_pixels\<close>, also for a
  rectangle wholly outside the source image. At a 10 by 10 source and the 5 by 5 rectangle at
  (100, 0) the computed copy width is \<open>min (5 - 0) (10 - 100) = -90\<close>: the assertion
  \<^verbatim>\<open>copy_width >= 0\<close> fails and no image is produced.
\<close>

theorem subimage_outside_source_fails_assert:
  "DP_min_int (5 - 0) (img_width image_10x10 - 100) = - 90
   \<and> DP_image_new 5 5 = Some \<lparr>img_width = 5, img_height = 5, img_pixels = replicate 25 0\<rparr>
   \<and> \<not> copy_pixels_asserts \<lparr>img_width = 5, img_height = 5, img_pixels = replicate 25 0\<rparr>
         image_10x10 0 0 100 0 (- 90) 5
   \<and> DP_image_new_subimage image_10x10 100 0 5 5 = None"
  by (simp add: DP_image_new_subimage_def DP_image_new_def copy_pixels_def copy_pixels_asserts_def
      DP_min_int_def DP_ASSERT_def image_10x10_def word_sless_alt word_sle_eq)

subsection \<open>The canvas diff\<close>

lemma sint_round_up:
  assumes "0 \<le>s w"
  shows "sint (DP_tile_size_round_up w) = (sint w + 63) div 64"
proof -
  from assms have "0 \<le> sint w" by (simp add: word_sle_eq)
  moreover have "sint w < 2147483648" using sint32_bounds[of w] by simp
  ultimately have "- 2147483648 \<le> (sint w + 63) div 64" "(sint w + 63) div 64 < 2147483648"
    by auto
  then show ?thesis
    unfolding DP_tile_size_round_up_def by (rule sint_word_of_int_32)
qed

lemma diff_begin:
  assumes len: "length (tile_changes d) = nat (sint (tile_changes_reserved d))"
    and pre: "0 \<le>s ow" "0 \<le>s oh" "0 \<le>s w" "0 \<le>s h"
  shows "\<exists>d'. DP_canvas_diff_begin d ow oh w h lpc = Some d'
     \<and> xtiles d' = DP_tile_size_round_up w \<and> ytiles d' = DP_tile_size_round_up h
     \<and> count d' = xtiles d' * ytiles d'
     \<and> length (tile_changes d') = nat (sint (tile_changes_reserved d'))
     \<and> nat (sint (count d')) \<le> length (tile_changes d')
     \<and> take (nat (sint (count d'))) (tile_changes d')
         = replicate (nat (sint (count d'))) (ow \<noteq> w \<or> oh \<noteq> h)"
proof -
  let ?n = "DP_tile_size_round_up w * DP_tile_size_round_up h"
  show ?thesis
  proof (cases "tile_changes_reserved d <s ?n")
    case True
    then have "nat (sint (tile_changes_reserved d)) \<le> nat (sint ?n)"
      by (simp add: word_sless_alt)
    with True len pre show ?thesis
      by (simp add: DP_canvas_diff_begin_def Let_def fold_list_update_all)
  next
    case False
    then have "nat (sint ?n) \<le> nat (sint (tile_changes_reserved d))"
      by (simp add: word_sless_alt)
    with False len pre show ?thesis
      by (simp add: DP_canvas_diff_begin_def Let_def fold_list_update_all)
  qed
qed

lemma take_replicate_nth:
  "take n xs = replicate n v \<Longrightarrow> i < n \<Longrightarrow> n \<le> length xs \<Longrightarrow> xs ! i = v"
  by (metis nth_replicate nth_take)

text \<open>
  Claim C8. \<^verbatim>\<open>DP_canvas_diff_begin\<close> (its assertions holding, the buffer having its reserved
  size) sets the grid to the ceiling of \<open>w / 64\<close> by the ceiling of \<open>h / 64\<close> tiles and gives
  each of them the same mark: changed exactly when the old and the new size differ. The diff
  of a snapshot against itself then leaves every tile unmarked.
\<close>

theorem canvas_diff_begin_marks:
  assumes len: "length (tile_changes d) = nat (sint (tile_changes_reserved d))"
  shows "(0 \<le>s ow \<and> 0 \<le>s oh \<and> 0 \<le>s w \<and> 0 \<le>s h \<longrightarrow>
          (\<exists>d'. DP_canvas_diff_begin d ow oh w h lpc = Some d'
             \<and> sint (xtiles d') = (sint w + 63) div 64
             \<and> sint (ytiles d') = (sint h + 63) div 64
             \<and> count d' = xtiles d' * ytiles d'
             \<and> nat (sint (count d')) \<le> length (tile_changes d')
             \<and> (\<forall>i < nat (sint (count d')). tile_changes d' ! i = (ow \<noteq> w \<or> oh \<noteq> h))))
       \<and> (canvas_states hp cs = Some s \<and> 0 < refcount s \<and> 0 \<le>s width s \<and> 0 \<le>s height s \<longrightarrow>
          (\<exists>d'. DP_canvas_state_diff env cs (Some cs) d lpc hp = Some d'
             \<and> (\<forall>i < nat (sint (count d')). \<not> tile_changes d' ! i)
             \<and> \<not> DP_canvas_diff_tiles_changed d'))"
proof (intro conjI impI)
  assume pre: "0 \<le>s ow \<and> 0 \<le>s oh \<and> 0 \<le>s w \<and> 0 \<le>s h"
  with diff_begin[OF len, of ow oh w h lpc] obtain d' where
    d: "DP_canvas_diff_begin d ow oh w h lpc = Some d'"
      "xtiles d' = DP_tile_size_round_up w" "ytiles d' = DP_tile_size_round_up h"
      "count d' = xtiles d' * ytiles d'" "nat (sint (count d')) \<le> length (tile_changes d')"
      "take (nat (sint (count d'))) (tile_changes d')
         = replicate (nat (sint (count d'))) (ow \<noteq> w \<or> oh \<noteq> h)"
    by blast
  have "\<forall>i < nat (sint (count d')). tile_changes d' ! i = (ow \<noteq> w \<or> oh \<noteq> h)"
    using take_replicate_nth[OF d(6) _ d(5)] by blast
  with d pre show "\<exists>d'. DP_canvas_diff_begin d ow oh w h lpc = Some d'
             \<and> sint (xtiles d') = (sint w + 63) div 64
             \<and> sint (ytiles d') = (sint h + 63) div 64
             \<and> count d' = xtiles d' * ytiles d'
             \<and> nat (sint (count d')) \<le> length (tile_changes d')
             \<and> (\<forall>i < nat (sint (count d')). tile_changes d' ! i = (ow \<noteq> w \<or> oh \<noteq> h))"
    by (simp add: sint_round_up)
next
  assume a: "canvas_states hp cs = Some s \<and> 0 < refcount s \<and> 0 \<le>s width s \<and> 0 \<le>s height s"
  with diff_begin[OF len, of "width s" "height s" "width s" "height s" lpc] obtain d' where
    d: "DP_canvas_diff_begin d (width s) (height s) (width s) (height s) lpc = Some d'"
      "nat (sint (count d')) \<le> length (tile_changes d')"
      "take (nat (sint (count d'))) (tile_changes d') = replicate (nat (sint (count d'))) False"
    by auto
  have n: "\<forall>i < nat (sint (count d')). \<not> tile_changes d' ! i"
    using take_replicate_nth[OF d(3) _ d(2)] by blast
  then have "\<not> DP_canvas_diff_tiles_changed d'"
    by (simp add: DP_canvas_diff_tiles_changed_def list_ex_iff)
  with a d n show "\<exists>d'. DP_canvas_state_diff env cs (Some cs) d lpc hp = Some d'
             \<and> (\<forall>i < nat (sint (count d')). \<not> tile_changes d' ! i)
             \<and> \<not> DP_canvas_diff_tiles_changed d'"
    by (simp add: DP_canvas_state_diff_def)
qed

theorem canvas_diff_begin_marks_witness:
  "DP_canvas_diff_begin DP_canvas_diff_new 0 0 100 80 False
     = Some \<lparr>count = 4, xtiles = 2, ytiles = 2, tile_changes_reserved = 4,
             tile_changes = [True, True, True, True], layer_props_changed = False\<rparr>
   \<and> DP_canvas_state_diff example_env 0 (Some 0) DP_canvas_diff_new False example_heap
     = Some \<lparr>count = 4, xtiles = 2, ytiles = 2, tile_changes_reserved = 4,
             tile_changes = [False, False, False, False], layer_props_changed = False\<rparr>"
proof -
  have len: "length (tile_changes DP_canvas_diff_new)
      = nat (sint (tile_changes_reserved DP_canvas_diff_new))"
    by (simp add: DP_canvas_diff_new_def)
  have r: "DP_tile_size_round_up 100 = 2" "DP_tile_size_round_up 80 = 2"
    by (simp_all add: DP_tile_size_round_up_def)
  have u: "[0..<4] = [0, Suc 0, Suc (Suc 0), Suc (Suc (Suc 0))]" by (simp add: upt_rec)
  have e: "replicate 4 False = [False, False, False, False]"
    by (simp add: numeral_eq_Suc)
  have b: "DP_canvas_diff_begin DP_canvas_diff_new 0 0 100 80 False
     = Some \<lparr>count = 4, xtiles = 2, ytiles = 2, tile_changes_reserved = 4,
             tile_changes = [True, True, True, True], layer_props_changed = False\<rparr>"
    by (simp add: DP_canvas_diff_begin_def DP_canvas_diff_new_def r u e Let_def
        word_sle_eq word_sless_alt)
  have c: "DP_canvas_diff_begin DP_canvas_diff_new 100 80 100 80 False
     = Some \<lparr>count = 4, xtiles = 2, ytiles = 2, tile_changes_reserved = 4,
             tile_changes = [False, False, False, False], layer_props_changed = False\<rparr>"
    by (simp add: DP_canvas_diff_begin_def DP_canvas_diff_new_def r u e Let_def
        word_sle_eq word_sless_alt)
  show ?thesis
    using canvas_diff_begin_marks[OF len, of 0 0 100 80 False example_heap 0
        "\<lparr>refcount = 1, transient = False, width = 100, height = 80,
          background_tile = None, layers = Some 1\<rparr>" example_env]
    by (simp add: b c DP_canvas_state_diff_def example_heap_def)
qed


subsection \<open>Canvas resize and fill rect\<close>

lemma example_heap_wf: "heap_wf example_heap"
  by (auto simp: heap_wf_def example_heap_def)

lemma example_snapshot_ok: "snapshot_ok example_heap 0"
  by (simp add: snapshot_ok_def tile_ok_def layer_list_ok_def example_heap_def)

lemma example_state:
  "canvas_states example_heap 0 = Some \<lparr>refcount = 1, transient = False, width = 100,
     height = 80, background_tile = None, layers = Some 1\<rparr>"
  by (simp add: example_heap_def)

text \<open>
  The resize in the arithmetic of the code, where a sum of \<^verbatim>\<open>int\<close> wraps.
\<close>

lemma canvas_resize_wrapped:
  assumes wf: "heap_wf h" and ok: "snapshot_ok h cs" and s: "canvas_states h cs = Some s"
  shows "let top_b = DP_msg_canvas_resize_top mcr; right_b = DP_msg_canvas_resize_right mcr;
             bottom_b = DP_msg_canvas_resize_bottom mcr; left_b = DP_msg_canvas_resize_left mcr;
             new_w = width s + right_b + left_b; new_h = height s + bottom_b + top_b;
             north = - top_b; west = - left_b;
             east = width s + right_b; south = height s + bottom_b
         in \<exists>r h'. handle_canvas_resize env cs context_id mcr h = Some (r, h')
              \<and> (r = None \<longleftrightarrow>
                   new_w <s 1 \<or> INT16_MAX <s new_w \<or> new_h <s 1 \<or> INT16_MAX <s new_h
                   \<or> south \<le>s north \<or> east \<le>s west)
              \<and> (r = None \<longrightarrow> same_objects h h' \<and> error_set h h')
              \<and> (\<forall>p. r = Some p \<longrightarrow>
                    fresh_snapshot h p h' \<and>
                    (\<exists>s'. canvas_states h' p = Some s' \<and> width s' = new_w \<and> height s' = new_h
                       \<and> background_tile s' = background_tile s))"
proof -
  from ok s obtain ll l where l: "0 < refcount s" "\<not> transient s"
    "layers s = Some ll" "layer_lists h ll = Some l" "0 < ll_refcount l" "\<not> ll_transient l"
    and bg: "tile_ok h (background_tile s)"
    by (auto elim!: snapshot_okE)
  from wf s l have ne: "cs \<noteq> next_addr h" "ll \<noteq> next_addr h" "ll \<noteq> Suc (next_addr h)"
    using heap_wf_live[OF wf] by fastforce+
  note fr = heap_wf_fresh[OF wf]
  show ?thesis
  proof (cases "background_tile s")
    case None
    with s l ne fr show ?thesis
      by (auto simp: handle_canvas_resize_def DP_transient_canvas_state_resize_def
          DP_transient_layer_list_resize_def store_defs outcome_defs error_set_def Let_def
          fun_upd_twist)
  next
    case (Some t)
    with bg obtain tile where t: "tiles h t = Some tile" "0 < tile_refcount tile"
      by (auto elim: tile_okE)
    with wf have "t \<noteq> next_addr h" using heap_wf_live[OF wf] by fastforce
    with Some t s l ne fr show ?thesis
      by (auto simp: handle_canvas_resize_def DP_transient_canvas_state_resize_def
          DP_transient_layer_list_resize_def store_defs outcome_defs error_set_def Let_def
          fun_upd_twist)
  qed
qed

text \<open>
  Claim C2, amended. On a snapshot of a well-formed store and for a resize none of whose sums
  overflows an \<^verbatim>\<open>int\<close>, \<^verbatim>\<open>handle_canvas_resize\<close> fails exactly when
  \<open>new_w = width + left + right\<close> or \<open>new_h = height + top + bottom\<close>, the numbers themselves,
  is outside 1 to 32767 or the borders are reversed (\<open>north \<ge> south\<close> or \<open>west \<ge> east\<close>); a
  failure sets an error and leaves the store's objects as they were, and a success returns a
  new snapshot of size \<open>new_w\<close> by \<open>new_h\<close> with the same background tile.
\<close>

theorem canvas_resize_outcome:
  assumes wf: "heap_wf h" and ok: "snapshot_ok h cs" and s: "canvas_states h cs = Some s"
    and fits: "resize_fits s mcr"
  shows "let top_b = sint (DP_msg_canvas_resize_top mcr);
             right_b = sint (DP_msg_canvas_resize_right mcr);
             bottom_b = sint (DP_msg_canvas_resize_bottom mcr);
             left_b = sint (DP_msg_canvas_resize_left mcr);
             new_w = sint (width s) + left_b + right_b;
             new_h = sint (height s) + top_b + bottom_b;
             north = - top_b; west = - left_b;
             east = sint (width s) + right_b; south = sint (height s) + bottom_b
         in \<exists>r h'. handle_canvas_resize env cs context_id mcr h = Some (r, h')
              \<and> (r = None \<longleftrightarrow>
                   new_w < 1 \<or> 32767 < new_w \<or> new_h < 1 \<or> 32767 < new_h
                   \<or> south \<le> north \<or> east \<le> west)
              \<and> (r = None \<longrightarrow> same_objects h h' \<and> error_set h h')
              \<and> (\<forall>p. r = Some p \<longrightarrow>
                    fresh_snapshot h p h' \<and>
                    (\<exists>s'. canvas_states h' p = Some s' \<and> sint (width s') = new_w
                       \<and> sint (height s') = new_h
                       \<and> background_tile s' = background_tile s))"
proof -
  let ?t = "DP_msg_canvas_resize_top mcr" and ?r = "DP_msg_canvas_resize_right mcr"
  let ?b = "DP_msg_canvas_resize_bottom mcr" and ?l = "DP_msg_canvas_resize_left mcr"
  from fits have f: "fits_int (- sint ?t)" "fits_int (- sint ?l)"
    "fits_int (sint (width s) + sint ?r)" "fits_int (sint (height s) + sint ?b)"
    "fits_int (sint (width s) + sint ?r + sint ?l)"
    "fits_int (sint (height s) + sint ?b + sint ?t)"
    by (simp_all add: resize_fits_def)
  have n: "sint (- ?t) = - sint ?t" and w: "sint (- ?l) = - sint ?l"
    using f(1,2) by (simp_all add: sint_minus_fits)
  have e: "sint (width s + ?r) = sint (width s) + sint ?r"
    and so: "sint (height s + ?b) = sint (height s) + sint ?b"
    using f(3,4) by (simp_all add: sint_add_fits)
  have nw: "sint (width s + ?r + ?l) = sint (width s) + sint ?l + sint ?r"
    using sint_add_fits[of "width s + ?r" ?l] f(5) unfolding e by simp
  have nh: "sint (height s + ?b + ?t) = sint (height s) + sint ?t + sint ?b"
    using sint_add_fits[of "height s + ?b" ?t] f(6) unfolding so by simp
  from canvas_resize_wrapped[OF wf ok s, of mcr env context_id] obtain r h' where
    res: "handle_canvas_resize env cs context_id mcr h = Some (r, h')"
    and fail: "r = None \<longleftrightarrow>
       width s + ?r + ?l <s 1 \<or> INT16_MAX <s width s + ?r + ?l \<or>
       height s + ?b + ?t <s 1 \<or> INT16_MAX <s height s + ?b + ?t \<or>
       height s + ?b \<le>s - ?t \<or> width s + ?r \<le>s - ?l"
    and un: "r = None \<longrightarrow> same_objects h h' \<and> error_set h h'"
    and su: "\<forall>p. r = Some p \<longrightarrow>
       fresh_snapshot h p h' \<and>
       (\<exists>s'. canvas_states h' p = Some s' \<and> width s' = width s + ?r + ?l
          \<and> height s' = height s + ?b + ?t \<and> background_tile s' = background_tile s)"
    unfolding Let_def by blast
  have fail': "r = None \<longleftrightarrow>
       sint (width s) + sint ?l + sint ?r < 1 \<or> 32767 < sint (width s) + sint ?l + sint ?r \<or>
       sint (height s) + sint ?t + sint ?b < 1 \<or> 32767 < sint (height s) + sint ?t + sint ?b \<or>
       sint (height s) + sint ?b \<le> - sint ?t \<or> sint (width s) + sint ?r \<le> - sint ?l"
    unfolding fail word_sless_alt word_sle_eq INT16_MAX_def nw nh n w e so by simp
  have su': "\<forall>p. r = Some p \<longrightarrow>
       fresh_snapshot h p h' \<and>
       (\<exists>s'. canvas_states h' p = Some s'
          \<and> sint (width s') = sint (width s) + sint ?l + sint ?r
          \<and> sint (height s') = sint (height s) + sint ?t + sint ?b
          \<and> background_tile s' = background_tile s)"
    using su nw nh by auto
  show ?thesis
    unfolding Let_def using res fail' un su' by blast
qed

theorem canvas_resize_outcome_witness:
  "heap_wf example_heap \<and> snapshot_ok example_heap 0
   \<and> resize_fits \<lparr>refcount = 1, transient = False, width = 100, height = 80,
        background_tile = None, layers = Some 1\<rparr>
       \<lparr>DP_msg_canvas_resize_top = 0, DP_msg_canvas_resize_right = 8,
        DP_msg_canvas_resize_bottom = 8, DP_msg_canvas_resize_left = 0\<rparr>
   \<and> (\<exists>h'. handle_canvas_resize example_env 0 9
          \<lparr>DP_msg_canvas_resize_top = 0, DP_msg_canvas_resize_right = 8,
           DP_msg_canvas_resize_bottom = 8, DP_msg_canvas_resize_left = 0\<rparr> example_heap
          = Some (Some 2, h')
        \<and> map_option (\<lambda>s'. (sint (width s'), sint (height s'))) (canvas_states h' 2)
            = Some (108, 88))
   \<and> (\<exists>h'. handle_canvas_resize example_env 0 9
          \<lparr>DP_msg_canvas_resize_top = 0, DP_msg_canvas_resize_right = - 100,
           DP_msg_canvas_resize_bottom = 0, DP_msg_canvas_resize_left = 0\<rparr> example_heap
          = Some (None, h') \<and> same_objects example_heap h' \<and> error_set example_heap h')"
proof -
  have f1: "resize_fits \<lparr>refcount = 1, transient = False, width = 100, height = 80,
        background_tile = None, layers = Some 1\<rparr>
       \<lparr>DP_msg_canvas_resize_top = 0, DP_msg_canvas_resize_right = 8,
        DP_msg_canvas_resize_bottom = 8, DP_msg_canvas_resize_left = 0\<rparr>"
    by (simp add: resize_fits_def fits_int_def)
  have f2: "resize_fits \<lparr>refcount = 1, transient = False, width = 100, height = 80,
        background_tile = None, layers = Some 1\<rparr>
       \<lparr>DP_msg_canvas_resize_top = 0, DP_msg_canvas_resize_right = - 100,
        DP_msg_canvas_resize_bottom = 0, DP_msg_canvas_resize_left = 0\<rparr>"
    by (simp add: resize_fits_def fits_int_def)
  have p: "map_option fst (handle_canvas_resize example_env 0 9
          \<lparr>DP_msg_canvas_resize_top = 0, DP_msg_canvas_resize_right = 8,
           DP_msg_canvas_resize_bottom = 8, DP_msg_canvas_resize_left = 0\<rparr> example_heap)
      = Some (Some 2)"
    by (simp add: handle_canvas_resize_def DP_transient_canvas_state_resize_def
        DP_transient_layer_list_resize_def store_defs example_heap_def example_env_def
        INT16_MAX_def word_sle_eq word_sless_alt)
  from canvas_resize_outcome[OF example_heap_wf example_snapshot_ok example_state f1,
      where env = example_env and context_id = 9] p
  have a: "\<exists>h'. handle_canvas_resize example_env 0 9
          \<lparr>DP_msg_canvas_resize_top = 0, DP_msg_canvas_resize_right = 8,
           DP_msg_canvas_resize_bottom = 8, DP_msg_canvas_resize_left = 0\<rparr> example_heap
          = Some (Some 2, h')
        \<and> map_option (\<lambda>s'. (sint (width s'), sint (height s'))) (canvas_states h' 2)
            = Some (108, 88)"
    by (auto simp: Let_def)
  from canvas_resize_outcome[OF example_heap_wf example_snapshot_ok example_state f2,
      where env = example_env and context_id = 9]
  have b: "\<exists>h'. handle_canvas_resize example_env 0 9
          \<lparr>DP_msg_canvas_resize_top = 0, DP_msg_canvas_resize_right = - 100,
           DP_msg_canvas_resize_bottom = 0, DP_msg_canvas_resize_left = 0\<rparr> example_heap
          = Some (None, h') \<and> same_objects example_heap h' \<and> error_set example_heap h'"
    by (auto simp: Let_def)
  show ?thesis
    using a b f1 example_heap_wf example_snapshot_ok by blast
qed

text \<open>
  Claim C2 as stated fails: with the borders \<open>right = left = 2147483647\<close> on the canvas of
  100 by 80 the sum \<open>width + left + right\<close> is 4294967394, far outside 1 to 32767, yet the
  sums of the code wrap and the resize returns a new snapshot, 98 pixels wide.
\<close>

theorem canvas_resize_overflow_is_accepted:
  "result_size (handle_canvas_resize example_env 0 9
      \<lparr>DP_msg_canvas_resize_top = 0, DP_msg_canvas_resize_right = 2147483647,
       DP_msg_canvas_resize_bottom = 0, DP_msg_canvas_resize_left = 2147483647\<rparr> example_heap)
     = Some (98, 80)
   \<and> sint (100 :: c_int) + sint (2147483647 :: c_int) + sint (2147483647 :: c_int) = 4294967394"
  by (simp add: result_size_def handle_canvas_resize_def DP_transient_canvas_state_resize_def
      DP_transient_layer_list_resize_def store_defs example_heap_def example_env_def
      INT16_MAX_def word_sle_eq word_sless_alt)





subsection \<open>Region move\<close>

lemma monochrome_returns:
  assumes "0 \<le>s w" "0 \<le>s h_px"
  shows "\<exists>r h'. DP_image_new_from_compressed_monochrome env w h_px bs h = Some (r, h')
           \<and> h'\<lparr>errors := errors h\<rparr> = h
           \<and> (r \<noteq> None \<longrightarrow> h' = h)
           \<and> (r = None \<and> collaborators_report env \<longrightarrow> error_set h h')"
  using assms
  by (auto simp: DP_image_new_from_compressed_monochrome_def get_monochrome_buffer_def
      extract_monochrome_def DP_image_new_def DP_error_set_def collaborator_error_def Let_def
      collaborators_report_def error_set_def split: option.splits)

text \<open>
  Claim C4. \<^verbatim>\<open>handle_region_move\<close> fails, no snapshot made and the store untouched but for
  the error recorded, when the source rectangle's width or height is not positive, and when
  the area of the destination quad's bounding rectangle exceeds
  \<open>(canvas width + 1) * (canvas height + 1)\<close>; the product the code compares with, computed in
  \<^verbatim>\<open>long long\<close>, is that number: it does not overflow.
\<close>

theorem region_move_guards:
  assumes s: "canvas_states h cs = Some s"
    and r: "DP_msg_region_move_src_rect mrm = (src_x, src_y, src_width, src_height)"
    and q: "DP_msg_region_move_dst_quad mrm = (x1, y1, x2, y2, x3, y3, x4, y4)"
  shows "(src_width \<le>s 0 \<or> src_height \<le>s 0
            \<longrightarrow> handle_region_move env cs context_id mrm h
                = Some (None, DP_error_set ''Region move: selection is empty'' h))
       \<and> ((sint (width s) + 1) * (sint (height s) + 1)
             < sint (DP_rect_size env (DP_quad_bounds env (DP_quad_make x1 y1 x2 y2 x3 y3 x4 y4)))
            \<longrightarrow> failed_untouched h (handle_region_move env cs context_id mrm h))
       \<and> sint ((scast (width s) + 1) * (scast (height s) + 1) :: c_llong)
            = (sint (width s) + 1) * (sint (height s) + 1)"
proof (intro conjI impI)
  assume "src_width \<le>s 0 \<or> src_height \<le>s 0"
  with r show "handle_region_move env cs context_id mrm h
      = Some (None, DP_error_set ''Region move: selection is empty'' h)"
    by (simp add: handle_region_move_def)
next
  assume big: "(sint (width s) + 1) * (sint (height s) + 1)
             < sint (DP_rect_size env (DP_quad_bounds env (DP_quad_make x1 y1 x2 y2 x3 y3 x4 y4)))"
  have masked: "failed_untouched h (region_move_masked env cs context_id mrm m h1)"
    if h1: "h1\<lparr>errors := errors h\<rparr> = h" for m h1
  proof -
    from h1 have "canvas_states (h1\<lparr>errors := errors h\<rparr>) = canvas_states h" by simp
    then have "canvas_states h1 cs = Some s" using s by simp
    with r q big h1 show ?thesis
      by (simp add: region_move_masked_def failed_untouched_def DP_error_set_def Let_def
          word_sless_alt sint_llong_product)
  qed
  show "failed_untouched h (handle_region_move env cs context_id mrm h)"
  proof (cases "src_width \<le>s 0 \<or> src_height \<le>s 0")
    case True
    with r show ?thesis
      by (simp add: handle_region_move_def failed_untouched_def DP_error_set_def)
  next
    case False
    then have pos: "0 \<le>s src_width" "0 \<le>s src_height"
      by (auto simp: word_sle_eq)
    show ?thesis
    proof (cases "DP_msg_region_move_mask mrm")
      case None
      with r False masked[of h] show ?thesis by (simp add: handle_region_move_def)
    next
      case (Some in_mask)
      from monochrome_returns[OF pos] obtain res h1 where
        d: "DP_image_new_from_compressed_monochrome env src_width src_height in_mask h
           = Some (res, h1)" and h1: "h1\<lparr>errors := errors h\<rparr> = h" by blast
      with Some r False masked[OF h1] show ?thesis
        by (cases res) (simp_all add: handle_region_move_def failed_untouched_def)
    qed
  qed
next
  show "sint ((scast (width s) + 1) * (scast (height s) + 1) :: c_llong)
            = (sint (width s) + 1) * (sint (height s) + 1)"
    by (rule sint_llong_product)
qed

theorem region_move_guards_witness:
  "handle_region_move example_env 0 9
     \<lparr>DP_msg_region_move_layer_id = 1, DP_msg_region_move_src_rect = (0, 0, 0, 5),
      DP_msg_region_move_dst_quad = (0, 0, 10, 0, 10, 10, 0, 10),
      DP_msg_region_move_mask = None\<rparr> example_heap
     = Some (None, DP_error_set ''Region move: selection is empty'' example_heap)
   \<and> failed_untouched example_heap (handle_region_move example_env 0 9
     \<lparr>DP_msg_region_move_layer_id = 1, DP_msg_region_move_src_rect = (0, 0, 5, 5),
      DP_msg_region_move_dst_quad = (0, 0, 30000, 0, 30000, 30000, 0, 30000),
      DP_msg_region_move_mask = None\<rparr> example_heap)
   \<and> sint (DP_rect_size example_env (DP_quad_bounds example_env
          (DP_quad_make 0 0 30000 0 30000 30000 0 30000))) = 900000000
   \<and> (sint (100 :: c_int) + 1) * (sint (80 :: c_int) + 1) = 8181"
proof -
  have big: "(sint (100 :: c_int) + 1) * (sint (80 :: c_int) + 1)
      < sint (DP_rect_size example_env (DP_quad_bounds example_env
          (DP_quad_make 0 0 30000 0 30000 30000 0 30000)))"
    by (simp add: example_env_def)
  show ?thesis
    using region_move_guards[OF example_state, where env = example_env and context_id = 9
        and mrm = "\<lparr>DP_msg_region_move_layer_id = 1, DP_msg_region_move_src_rect = (0, 0, 0, 5),
          DP_msg_region_move_dst_quad = (0, 0, 10, 0, 10, 10, 0, 10),
          DP_msg_region_move_mask = None\<rparr>"
        and src_x = 0 and src_y = 0 and src_width = 0 and src_height = 5
        and ?x1.0 = 0 and ?y1.0 = 0 and ?x2.0 = 10 and ?y2.0 = 0 and ?x3.0 = 10 and ?y3.0 = 10
        and ?x4.0 = 0 and ?y4.0 = 10]
      region_move_guards[OF example_state, where env = example_env and context_id = 9
        and mrm = "\<lparr>DP_msg_region_move_layer_id = 1, DP_msg_region_move_src_rect = (0, 0, 5, 5),
          DP_msg_region_move_dst_quad = (0, 0, 30000, 0, 30000, 30000, 0, 30000),
          DP_msg_region_move_mask = None\<rparr>"
        and src_x = 0 and src_y = 0 and src_width = 5 and src_height = 5
        and ?x1.0 = 0 and ?y1.0 = 0 and ?x2.0 = 30000 and ?y2.0 = 0 and ?x3.0 = 30000
        and ?y3.0 = 30000 and ?x4.0 = 0 and ?y4.0 = 30000]
      big
    by (simp add: word_sle_eq example_env_def)
qed


subsection \<open>Draw dabs\<close>

lemma opacity_byte:
  "drop_bit 24 ((color :: 32 word) AND 0xff000000) = drop_bit 24 color AND 0xff"
proof -
  have m1: "(0xff :: 32 word) = mask 8" by (simp add: mask_eq_exp_minus_1)
  have m2: "(0xff000000 :: 32 word) = push_bit 24 (mask 8)"
    by (simp add: mask_eq_exp_minus_1 push_bit_eq_mult)
  show ?thesis
    unfolding m1 m2
    by (rule bit_word_eqI) (auto simp: bit_simps dest: bit_imp_le_length)
qed

lemma dab_count_ge_1:
  assumes "0 < n" "n < 2147483648"
  shows "\<not> (of_nat n :: c_int) <s 1"
proof -
  have "sint (of_nat n :: c_int) = int n"
    using assms sint_word_of_int_32[of "int n"] by simp
  with assms show ?thesis by (simp add: word_sless_alt)
qed

text \<open>
  Claim C5, amended. A draw-dabs message (classic, pixel or pixel square) without dabs whose
  blend mode exists and is valid for brushes is a no-op: the handler returns the input
  snapshot itself, and the store differs only in that snapshot's reference count, which is
  one higher. A message whose blend mode is unknown or not valid for brushes fails, whatever
  its dabs: the handler returns \<^verbatim>\<open>NULL\<close>, and the store differs only in the error recorded.
\<close>

theorem draw_dabs_zero_returns_input:
  assumes s: "canvas_states h cs = Some s" "0 < refcount s" "\<not> transient s"
    and b: "body = DP_MSG_DRAW_DABS_CLASSIC mdd \<or> body = DP_MSG_DRAW_DABS_PIXEL mdd
            \<or> body = DP_MSG_DRAW_DABS_PIXEL_SQUARE mdd"
  shows "(DP_blend_mode_exists env (DP_msg_draw_dabs_blend_mode mdd)
          \<and> DP_blend_mode_valid_for_brush env (DP_msg_draw_dabs_blend_mode mdd)
          \<and> DP_msg_draw_dabs_dabs mdd = []
           \<longrightarrow> DP_canvas_state_handle env cs
                 \<lparr>DP_message_context_id = context_id, DP_message_body = body\<rparr> h
               = Some (Some cs,
                   h\<lparr>canvas_states := (canvas_states h)(cs \<mapsto> s\<lparr>refcount := refcount s + 1\<rparr>)\<rparr>))
       \<and> (\<not> DP_blend_mode_exists env (DP_msg_draw_dabs_blend_mode mdd)
           \<longrightarrow> DP_canvas_state_handle env cs
                 \<lparr>DP_message_context_id = context_id, DP_message_body = body\<rparr> h
               = Some (None, DP_error_set ''Draw dabs: unknown blend mode %d'' h))
       \<and> (DP_blend_mode_exists env (DP_msg_draw_dabs_blend_mode mdd)
          \<and> \<not> DP_blend_mode_valid_for_brush env (DP_msg_draw_dabs_blend_mode mdd)
           \<longrightarrow> DP_canvas_state_handle env cs
                 \<lparr>DP_message_context_id = context_id, DP_message_body = body\<rparr> h
               = Some (None,
                   DP_error_set ''Draw dabs: blend mode %s not applicable to brushes'' h))"
  using assms
  by (auto simp: DP_canvas_state_handle_def handle_draw_dabs_def get_classic_dabs_def
      get_pixel_dabs_def DP_canvas_state_incref_def word_sless_alt)

theorem draw_dabs_zero_returns_input_witness:
  "DP_canvas_state_handle example_env 0
     \<lparr>DP_message_context_id = 7, DP_message_body = DP_MSG_DRAW_DABS_PIXEL
        \<lparr>DP_msg_draw_dabs_layer_id = 1, DP_msg_draw_dabs_origin_x = 0,
         DP_msg_draw_dabs_origin_y = 0, DP_msg_draw_dabs_color = 0x80ff0000,
         DP_msg_draw_dabs_blend_mode = 2, DP_msg_draw_dabs_indirect = True,
         DP_msg_draw_dabs_dabs = []\<rparr>\<rparr> example_heap
   = Some (Some 0, example_heap\<lparr>canvas_states := (canvas_states example_heap)(0 \<mapsto>
        \<lparr>refcount = 2, transient = False, width = 100, height = 80,
         background_tile = None, layers = Some 1\<rparr>)\<rparr>)
   \<and> DP_canvas_state_handle example_env 0
     \<lparr>DP_message_context_id = 7, DP_message_body = DP_MSG_DRAW_DABS_CLASSIC
        \<lparr>DP_msg_draw_dabs_layer_id = 1, DP_msg_draw_dabs_origin_x = 0,
         DP_msg_draw_dabs_origin_y = 0, DP_msg_draw_dabs_color = 0x80ff0000,
         DP_msg_draw_dabs_blend_mode = 255, DP_msg_draw_dabs_indirect = False,
         DP_msg_draw_dabs_dabs = [[1], [2], [3]]\<rparr>\<rparr> example_heap
   = Some (None,
       DP_error_set ''Draw dabs: blend mode %s not applicable to brushes'' example_heap)"
  using draw_dabs_zero_returns_input[OF example_state, where env = example_env
      and context_id = 7
      and mdd = "\<lparr>DP_msg_draw_dabs_layer_id = 1, DP_msg_draw_dabs_origin_x = 0,
         DP_msg_draw_dabs_origin_y = 0, DP_msg_draw_dabs_color = 0x80ff0000,
         DP_msg_draw_dabs_blend_mode = 2, DP_msg_draw_dabs_indirect = True,
         DP_msg_draw_dabs_dabs = []\<rparr>"
      and body = "DP_MSG_DRAW_DABS_PIXEL \<lparr>DP_msg_draw_dabs_layer_id = 1, DP_msg_draw_dabs_origin_x = 0,
         DP_msg_draw_dabs_origin_y = 0, DP_msg_draw_dabs_color = 0x80ff0000,
         DP_msg_draw_dabs_blend_mode = 2, DP_msg_draw_dabs_indirect = True,
         DP_msg_draw_dabs_dabs = []\<rparr>"]
    draw_dabs_zero_returns_input[OF example_state, where env = example_env
      and context_id = 7
      and mdd = "\<lparr>DP_msg_draw_dabs_layer_id = 1, DP_msg_draw_dabs_origin_x = 0,
         DP_msg_draw_dabs_origin_y = 0, DP_msg_draw_dabs_color = 0x80ff0000,
         DP_msg_draw_dabs_blend_mode = 255, DP_msg_draw_dabs_indirect = False,
         DP_msg_draw_dabs_dabs = [[1], [2], [3]]\<rparr>"
      and body = "DP_MSG_DRAW_DABS_CLASSIC \<lparr>DP_msg_draw_dabs_layer_id = 1, DP_msg_draw_dabs_origin_x = 0,
         DP_msg_draw_dabs_origin_y = 0, DP_msg_draw_dabs_color = 0x80ff0000,
         DP_msg_draw_dabs_blend_mode = 255, DP_msg_draw_dabs_indirect = False,
         DP_msg_draw_dabs_dabs = [[1], [2], [3]]\<rparr>"]
  by (simp add: example_env_def)

text \<open>
  Claim C5 as stated fails: the blend mode is checked before the dabs are counted, so a
  message without dabs whose blend mode is unknown is a failure, not the same snapshot.
\<close>

theorem draw_dabs_zero_unknown_blend_mode_fails:
  "DP_canvas_state_handle example_env 0
     \<lparr>DP_message_context_id = 7, DP_message_body = DP_MSG_DRAW_DABS_PIXEL
        \<lparr>DP_msg_draw_dabs_layer_id = 1, DP_msg_draw_dabs_origin_x = 0,
         DP_msg_draw_dabs_origin_y = 0, DP_msg_draw_dabs_color = 0x80ff0000,
         DP_msg_draw_dabs_blend_mode = 99, DP_msg_draw_dabs_indirect = False,
         DP_msg_draw_dabs_dabs = []\<rparr>\<rparr> example_heap
   = Some (None, DP_error_set ''Draw dabs: unknown blend mode %d'' example_heap)"
  by (simp add: DP_canvas_state_handle_def handle_draw_dabs_def example_heap_def
      example_env_def)

text \<open>
  Claim C6, amended. A draw-dabs message with at least one dab whose blend mode exists and is
  valid for brushes goes on to \<^verbatim>\<open>DP_transient_layer_list_draw_dabs\<close>: in indirect mode with
  the sublayer id \<open>context_id\<close>, the sublayer opacity \<open>(color >> 24) & 0xff\<close>, the requested
  blend mode for the sublayer and \<^verbatim>\<open>DP_BLEND_MODE_NORMAL\<close> for the dabs; in direct mode with
  the sublayer id 0 and the requested blend mode for the dabs. A message whose blend mode is
  unknown or not valid for brushes is refused and nothing is drawn: the handler returns
  \<^verbatim>\<open>NULL\<close>, and the store differs only in the error recorded.
\<close>

theorem draw_dabs_parameters:
  assumes n: "0 < length (DP_msg_draw_dabs_dabs mdd)" "length (DP_msg_draw_dabs_dabs mdd) < 2147483648"
    and g: "get_dabs = get_classic_dabs \<or> get_dabs = get_pixel_dabs"
  shows "(DP_blend_mode_exists env (DP_msg_draw_dabs_blend_mode mdd)
          \<and> DP_blend_mode_valid_for_brush env (DP_msg_draw_dabs_blend_mode mdd)
           \<longrightarrow> handle_draw_dabs env cs type context_id mdd get_dabs h =
     transient_op env cs 0
       (DP_transient_layer_list_draw_dabs (DP_msg_draw_dabs_layer_id mdd)
          (if DP_msg_draw_dabs_indirect mdd then context_id else 0)
          (if DP_msg_draw_dabs_indirect mdd then DP_msg_draw_dabs_blend_mode mdd else - 1)
          (if DP_msg_draw_dabs_indirect mdd
           then drop_bit 24 (DP_msg_draw_dabs_color mdd) AND 0xff else - 1)
          \<lparr>params_type = type, params_context_id = context_id,
           params_origin_x = DP_msg_draw_dabs_origin_x mdd,
           params_origin_y = DP_msg_draw_dabs_origin_y mdd,
           params_color = DP_msg_draw_dabs_color mdd,
           params_blend_mode = (if DP_msg_draw_dabs_indirect mdd then DP_BLEND_MODE_NORMAL env
                                else DP_msg_draw_dabs_blend_mode mdd),
           params_dab_count = of_nat (length (DP_msg_draw_dabs_dabs mdd)),
           params_dabs = DP_msg_draw_dabs_dabs mdd\<rparr>) h)
       \<and> (\<not> DP_blend_mode_exists env (DP_msg_draw_dabs_blend_mode mdd)
           \<longrightarrow> handle_draw_dabs env cs type context_id mdd get_dabs h
               = Some (None, DP_error_set ''Draw dabs: unknown blend mode %d'' h))
       \<and> (DP_blend_mode_exists env (DP_msg_draw_dabs_blend_mode mdd)
          \<and> \<not> DP_blend_mode_valid_for_brush env (DP_msg_draw_dabs_blend_mode mdd)
           \<longrightarrow> handle_draw_dabs env cs type context_id mdd get_dabs h
               = Some (None,
                   DP_error_set ''Draw dabs: blend mode %s not applicable to brushes'' h))"
  using g dab_count_ge_1[OF n]
  by (auto simp: handle_draw_dabs_def transient_op_def get_classic_dabs_def get_pixel_dabs_def
      Let_def opacity_byte DP_uint_to_int_def DP_uint32_to_int_def)

theorem draw_dabs_parameters_witness:
  "handle_draw_dabs example_env 0 Dabs_pixel 7
     \<lparr>DP_msg_draw_dabs_layer_id = 1, DP_msg_draw_dabs_origin_x = 0,
      DP_msg_draw_dabs_origin_y = 0, DP_msg_draw_dabs_color = 0x80ff0000,
      DP_msg_draw_dabs_blend_mode = 2, DP_msg_draw_dabs_indirect = True,
      DP_msg_draw_dabs_dabs = [[1], [2], [3]]\<rparr> get_pixel_dabs example_heap
   = transient_op example_env 0 0
       (DP_transient_layer_list_draw_dabs 1 7 2 0x80
          \<lparr>params_type = Dabs_pixel, params_context_id = 7, params_origin_x = 0,
           params_origin_y = 0, params_color = 0x80ff0000, params_blend_mode = 1,
           params_dab_count = 3, params_dabs = [[1], [2], [3]]\<rparr>) example_heap
   \<and> handle_draw_dabs example_env 0 Dabs_pixel 7
     \<lparr>DP_msg_draw_dabs_layer_id = 1, DP_msg_draw_dabs_origin_x = 0,
      DP_msg_draw_dabs_origin_y = 0, DP_msg_draw_dabs_color = 0x80ff0000,
      DP_msg_draw_dabs_blend_mode = 255, DP_msg_draw_dabs_indirect = True,
      DP_msg_draw_dabs_dabs = [[1], [2], [3]]\<rparr> get_pixel_dabs example_heap
   = Some (None,
       DP_error_set ''Draw dabs: blend mode %s not applicable to brushes'' example_heap)"
  using draw_dabs_parameters[where env = example_env and get_dabs = get_pixel_dabs
      and cs = 0 and type = Dabs_pixel and context_id = 7 and h = example_heap
      and mdd = "\<lparr>DP_msg_draw_dabs_layer_id = 1, DP_msg_draw_dabs_origin_x = 0,
        DP_msg_draw_dabs_origin_y = 0, DP_msg_draw_dabs_color = 0x80ff0000,
        DP_msg_draw_dabs_blend_mode = 2, DP_msg_draw_dabs_indirect = True,
        DP_msg_draw_dabs_dabs = [[1], [2], [3]]\<rparr>"]
    draw_dabs_parameters[where env = example_env and get_dabs = get_pixel_dabs
      and cs = 0 and type = Dabs_pixel and context_id = 7 and h = example_heap
      and mdd = "\<lparr>DP_msg_draw_dabs_layer_id = 1, DP_msg_draw_dabs_origin_x = 0,
        DP_msg_draw_dabs_origin_y = 0, DP_msg_draw_dabs_color = 0x80ff0000,
        DP_msg_draw_dabs_blend_mode = 255, DP_msg_draw_dabs_indirect = True,
        DP_msg_draw_dabs_dabs = [[1], [2], [3]]\<rparr>"]
  by (simp add: example_env_def)

text \<open>
  Claim C6 as stated fails: a message with dabs whose blend mode is unknown is refused before
  anything is drawn, in indirect mode as in direct mode.
\<close>

theorem draw_dabs_unknown_blend_mode_draws_nothing:
  "handle_draw_dabs example_env 0 Dabs_pixel 7
     \<lparr>DP_msg_draw_dabs_layer_id = 1, DP_msg_draw_dabs_origin_x = 0,
      DP_msg_draw_dabs_origin_y = 0, DP_msg_draw_dabs_color = 0x80ff0000,
      DP_msg_draw_dabs_blend_mode = 99, DP_msg_draw_dabs_indirect = True,
      DP_msg_draw_dabs_dabs = [[1], [2], [3]]\<rparr> get_pixel_dabs example_heap
   = Some (None, DP_error_set ''Draw dabs: unknown blend mode %d'' example_heap)"
  by (simp add: handle_draw_dabs_def example_env_def)

subsection \<open>The loops of pen up\<close>

lemma begin_transient:
  assumes wf: "heap_wf h" and ok: "snapshot_ok h cs"
    and s: "canvas_states h cs = Some s" "layers s = Some ll"
  shows "\<exists>h2. (DP_transient_canvas_state_new cs h \<bind>
            (\<lambda>(t, h1). get_transient_layer_list t 0 h1 \<bind>
               (\<lambda>(tll, h2). Some (tll, h2, Some t))))
          = Some (Suc (next_addr h), h2, Some (next_addr h))
        \<and> canvas_states h2 = (canvas_states h)(next_addr h \<mapsto>
             \<lparr>refcount = 1, transient = True, width = width s, height = height s,
              background_tile = background_tile s, layers = Some (Suc (next_addr h))\<rparr>)
        \<and> (\<exists>l. layer_lists h ll = Some l \<and>
              layer_lists h2 = (layer_lists h)(Suc (next_addr h) \<mapsto>
                \<lparr>ll_refcount = 1, ll_transient = True, ll_layers = ll_layers l\<rparr>))
        \<and> next_addr h2 = Suc (Suc (next_addr h))"
proof -
  from ok s obtain l where l: "0 < refcount s" "\<not> transient s"
    "layer_lists h ll = Some l" "0 < ll_refcount l" "\<not> ll_transient l"
    and bg: "tile_ok h (background_tile s)"
    by (auto elim!: snapshot_okE)
  from wf s l have ne: "cs \<noteq> next_addr h" "ll \<noteq> next_addr h" "ll \<noteq> Suc (next_addr h)"
    using heap_wf_live[OF wf] by fastforce+
  note fr = heap_wf_fresh[OF wf]
  show ?thesis
  proof (cases "background_tile s")
    case None
    with s l ne fr show ?thesis
      by (auto simp: store_defs fun_upd_twist word_sle_eq)
  next
    case (Some t)
    with bg obtain tile where t: "tiles h t = Some tile" "0 < tile_refcount tile"
      by (auto elim: tile_okE)
    with wf have "t \<noteq> next_addr h" using heap_wf_live[OF wf] by fastforce
    with Some t s l ne fr show ?thesis
      by (auto simp: store_defs fun_upd_twist word_sle_eq)
  qed
qed

lemma merge_sublayer_at_ok:
  assumes "sublayer_len h a i = Some n" "j < n"
  shows "\<exists>h'. DP_transient_layer_merge_sublayer_at env a i context_id j h = Some h'
     \<and> canvas_states h' = canvas_states h \<and> tiles h' = tiles h \<and> next_addr h' = next_addr h
     \<and> sublayer_len h' a i = Some (n - 1)
     \<and> list_len h' a = list_len h a
     \<and> (\<forall>b. b \<noteq> a \<longrightarrow> layer_lists h' b = layer_lists h b)"
proof -
  from assms obtain l where l: "layer_lists h a = Some l" "i < length (ll_layers l)"
    "n = length (DP_layer_sublayers_noinc (ll_layers l ! i))"
    by (auto simp: sublayer_len_def split: option.splits if_splits)
  let ?layer = "ll_layers l ! i"
  let ?merged = "DP_Layer (DP_layer_id ?layer)
     (merge_content env context_id ?layer (DP_layer_sublayers_noinc ?layer ! j))
     (take j (DP_layer_sublayers_noinc ?layer) @ drop (Suc j) (DP_layer_sublayers_noinc ?layer))"
  let ?h' = "h\<lparr>layer_lists := (layer_lists h)(a \<mapsto> l\<lparr>ll_layers := (ll_layers l)[i := ?merged]\<rparr>)\<rparr>"
  have 1: "DP_transient_layer_merge_sublayer_at env a i context_id j h = Some ?h'"
    using l assms(2) by (simp add: DP_transient_layer_merge_sublayer_at_def list_at_def Let_def)
  have 2: "sublayer_len ?h' a i = Some (n - 1)"
    using l assms(2) by (simp add: sublayer_len_def)
  have 3: "list_len ?h' a = list_len h a"
    using l by (simp add: list_len_def)
  show ?thesis
    using 1 2 3 by (intro exI[of _ ?h']) simp
qed

lemma transient_at_ok:
  assumes "sublayer_len h a i = Some n"
  shows "DP_transient_layer_list_transient_at a i h = Some h"
  using assms
  by (auto simp: DP_transient_layer_list_transient_at_def sublayer_len_def
      split: option.splits if_splits)

lemma list_len_other:
  "\<forall>b. b \<noteq> a \<longrightarrow> layer_lists h' b = layer_lists h b \<Longrightarrow> c \<noteq> a \<Longrightarrow> list_len h' c = list_len h c"
  by (simp add: list_len_def)

lemma pen_up_merge_step:
  assumes wf: "heap_wf h0" and ok: "snapshot_ok h0 cs"
    and s: "canvas_states h0 cs = Some s" "layers s = Some ll"
    and inv: "pen_up_st_inv h0 ll i n st" and j: "j < n"
  shows "\<exists>st'. pen_up_merge env cs context_id ll i j st = Some st'
           \<and> pen_up_st_inv h0 ll i (n - 1) st'"
proof -
  obtain h tcs tlr where st: "st = (h, tcs, tlr)" by (cases st) auto
  from inv st have pi: "pen_up_inv h0 ll h tcs"
    and tl: "tlr = None \<or> tcs \<noteq> None \<and> (tlr = Some ll \<or> tlr = Some (Suc (next_addr h0)))"
    and sl: "sublayer_len h (case tlr of None \<Rightarrow> ll | Some a \<Rightarrow> a) i = Some n"
    by (auto simp: pen_up_st_inv_def)
  show ?thesis
  proof (cases tlr)
    case (Some a)
    with sl have sla: "sublayer_len h a i = Some n" by simp
    from merge_sublayer_at_ok[OF sla j, of env context_id] obtain h' where
      m: "DP_transient_layer_merge_sublayer_at env a i context_id j h = Some h'"
        "canvas_states h' = canvas_states h" "next_addr h' = next_addr h"
        "sublayer_len h' a i = Some (n - 1)" "list_len h' a = list_len h a"
        "\<forall>b. b \<noteq> a \<longrightarrow> layer_lists h' b = layer_lists h b"
      by blast
    from Some tl obtain t where t: "tcs = Some t" "a = ll \<or> a = Suc (next_addr h0)" by auto
    have "pen_up_inv h0 ll h' tcs"
      using pi t m list_len_other[OF m(6)]
      by (auto simp: pen_up_inv_def split: option.splits)
    with m Some st t show ?thesis
      by (auto simp: pen_up_merge_def pen_up_st_inv_def)
  next
    case None
    with sl have sll: "sublayer_len h ll i = Some n" by simp
    show ?thesis
    proof (cases tcs)
      case (Some t)
      from merge_sublayer_at_ok[OF sll j, of env context_id] obtain h' where
        m: "DP_transient_layer_merge_sublayer_at env ll i context_id j h = Some h'"
          "canvas_states h' = canvas_states h" "next_addr h' = next_addr h"
          "sublayer_len h' ll i = Some (n - 1)" "list_len h' ll = list_len h ll"
          "\<forall>b. b \<noteq> ll \<longrightarrow> layer_lists h' b = layer_lists h b"
        by blast
      have "pen_up_inv h0 ll h' tcs"
        using pi Some m list_len_other[OF m(6)]
        by (auto simp: pen_up_inv_def split: option.splits)
      with m Some None st transient_at_ok[OF sll] show ?thesis
        by (auto simp: pen_up_merge_def pen_up_st_inv_def)
    next
      case tn: None
      with pi have h: "h = h0" by (simp add: pen_up_inv_def)
      from begin_transient[OF wf ok s] obtain h2 l where
        b: "(DP_transient_canvas_state_new cs h0 \<bind>
            (\<lambda>(t, h1). get_transient_layer_list t 0 h1 \<bind>
               (\<lambda>(tll, h2). Some (tll, h2, Some t))))
          = Some (Suc (next_addr h0), h2, Some (next_addr h0))"
        and cs2: "canvas_states h2 = (canvas_states h0)(next_addr h0 \<mapsto>
             \<lparr>refcount = 1, transient = True, width = width s, height = height s,
              background_tile = background_tile s, layers = Some (Suc (next_addr h0))\<rparr>)"
        and l: "layer_lists h0 ll = Some l"
        and ll2: "layer_lists h2 = (layer_lists h0)(Suc (next_addr h0) \<mapsto>
                \<lparr>ll_refcount = 1, ll_transient = True, ll_layers = ll_layers l\<rparr>)"
        by blast
      from wf l have ne: "ll \<noteq> Suc (next_addr h0)"
        using heap_wf_live[OF wf] by fastforce
      from sll h l have sl2: "sublayer_len h2 (Suc (next_addr h0)) i = Some n"
        by (auto simp: sublayer_len_def ll2 split: if_splits)
      from merge_sublayer_at_ok[OF sl2 j, of env context_id] obtain h' where
        m: "DP_transient_layer_merge_sublayer_at env (Suc (next_addr h0)) i context_id j h2 = Some h'"
          "canvas_states h' = canvas_states h2" "next_addr h' = next_addr h2"
          "sublayer_len h' (Suc (next_addr h0)) i = Some (n - 1)"
          "list_len h' (Suc (next_addr h0)) = list_len h2 (Suc (next_addr h0))"
          "\<forall>b. b \<noteq> Suc (next_addr h0) \<longrightarrow> layer_lists h' b = layer_lists h2 b"
        by blast
      have "pen_up_inv h0 ll h' (Some (next_addr h0))"
        using m l ne cs2 ll2 list_len_other[OF m(6), of ll]
        by (auto simp: pen_up_inv_def list_len_def)
      with m b tn None st h transient_at_ok[OF sl2] show ?thesis
        by (auto simp: pen_up_merge_def pen_up_st_inv_def)
    qed
  qed
qed


lemma pen_up_sublayer_id_ok:
  assumes "pen_up_st_inv h0 ll i n st" "j < n"
  shows "\<exists>lid. pen_up_sublayer_id ll i st j = Some lid"
  using assms
  by (cases st)
     (auto simp: pen_up_st_inv_def pen_up_sublayer_id_def sublayer_len_def list_at_def
        split: option.splits if_splits)

lemma pen_up_sublayers_ok:
  "heap_wf h0 \<Longrightarrow> snapshot_ok h0 cs \<Longrightarrow> canvas_states h0 cs = Some s \<Longrightarrow> layers s = Some ll \<Longrightarrow>
   pen_up_st_inv h0 ll i n st \<Longrightarrow>
     \<exists>h' tcs' tlr'. pen_up_sublayers env cs context_id ll i st n j = Some (h', tcs', tlr')
        \<and> pen_up_inv h0 ll h' tcs'"
proof (induction env cs context_id ll i st n j rule: pen_up_sublayers.induct)
  case (1 env cs context_id ll i st sublayer_count j)
  note wf = "1.prems"(1) and ok = "1.prems"(2) and s = "1.prems"(3,4) and inv = "1.prems"(5)
  show ?case
  proof (cases "j < sublayer_count")
    case False
    with inv show ?thesis
      by (cases st) (auto simp: pen_up_st_inv_def)
  next
    case True
    from pen_up_sublayer_id_ok[OF inv True] obtain lid where
      lid: "pen_up_sublayer_id ll i st j = Some lid" by blast
    show ?thesis
    proof (cases "lid = DP_uint_to_int context_id")
      case m: True
      from pen_up_merge_step[OF wf ok s inv True, of env context_id] obtain st' where
        st': "pen_up_merge env cs context_id ll i j st = Some st'"
          "pen_up_st_inv h0 ll i (sublayer_count - 1) st'" by blast
      from "1.IH"(1)[OF True lid m st'(1) wf ok s st'(2)] True lid m st' show ?thesis
        by (subst pen_up_sublayers.simps) simp
    next
      case n: False
      from "1.IH"(2)[OF True lid n wf ok s inv] True lid n show ?thesis
        by (subst pen_up_sublayers.simps) simp
    qed
  qed
qed

lemma pen_up_layers_ok:
  "heap_wf h0 \<Longrightarrow> snapshot_ok h0 cs \<Longrightarrow> canvas_states h0 cs = Some s \<Longrightarrow> layers s = Some ll \<Longrightarrow>
   pen_up_inv h0 ll (fst st) (snd st) \<Longrightarrow> list_len h0 ll = Some layer_count \<Longrightarrow>
     \<exists>h' tcs'. pen_up_layers env cs context_id ll layer_count st i = Some (h', tcs')
        \<and> pen_up_inv h0 ll h' tcs'"
proof (induction env cs context_id ll layer_count st i rule: pen_up_layers.induct)
  case (1 env cs context_id ll layer_count st i)
  note wf = "1.prems"(1) and ok = "1.prems"(2) and s = "1.prems"(3,4) and inv = "1.prems"(5)
    and len = "1.prems"(6)
  obtain h tcs where st: "st = (h, tcs)" by (cases st) auto
  show ?case
  proof (cases "i < layer_count")
    case False
    with inv st show ?thesis by simp
  next
    case True
    from inv st len obtain l where l: "layer_lists h ll = Some l" "length (ll_layers l) = layer_count"
      by (auto simp: pen_up_inv_def list_len_def)
    with True have la: "list_at (ll_layers l) i = Some (ll_layers l ! i)"
      by (simp add: list_at_def)
    let ?n = "length (DP_layer_sublayers_noinc (ll_layers l ! i))"
    have sinv: "pen_up_st_inv h0 ll i ?n (h, tcs, None)"
      using inv st l True by (simp add: pen_up_st_inv_def sublayer_len_def)
    from pen_up_sublayers_ok[OF wf ok s sinv, of env context_id 0] obtain h' tcs' tlr' where
      r: "pen_up_sublayers env cs context_id ll i (h, tcs, None) ?n 0 = Some (h', tcs', tlr')"
        "pen_up_inv h0 ll h' tcs'" by blast
    from "1.IH"[OF True st[symmetric] l(1) la r(1) refl refl wf ok s _ len] r(2)
    have "\<exists>h'' tcs''. pen_up_layers env cs context_id ll layer_count (h', tcs') (i + 1)
        = Some (h'', tcs'') \<and> pen_up_inv h0 ll h'' tcs''"
      by simp
    with True st l la r show ?thesis
      by (subst pen_up_layers.simps) simp
  qed
qed


subsection \<open>The outcomes of the handlers\<close>

lemma same_objects_refl [simp]: "same_objects h h"
  by (simp add: same_objects_def)

lemma outcome_refused [simp]: "outcome_new_or_failure h (Some (None, DP_error_set msg h))"
  by (simp add: outcome_new_or_failure_def error_set_def same_objects_def DP_error_set_def)

lemma layer_list_reports:
  assumes "collaborators_report env" "layer_list_op env call ls = None"
  shows "\<exists>e. layer_list_error env call ls = Some e"
  using assms by (auto simp: collaborators_report_def)

lemma layer_list_silent:
  assumes "collaborators_report env" "layer_list_error env call ls = None"
  shows "\<exists>ls'. layer_list_op env call ls = Some ls'"
  using layer_list_reports[OF assms(1), of call ls] assms(2)
  by (cases "layer_list_op env call ls") auto

lemma transient_op_outcome:
  assumes "heap_wf h" "snapshot_ok h cs" "0 \<le>s reserve" and rep: "collaborators_report env"
  shows "outcome_new_or_failure h (transient_op env cs reserve call h)"
proof (cases "layer_list_op env call (snapshot_layers h cs)")
  case None
  from layer_list_reports[OF rep None] obtain e where
    "layer_list_error env call (snapshot_layers h cs) = Some e" ..
  with None transient_op_result[OF assms(1-3), of env call] show ?thesis
    by (auto simp: outcome_new_or_failure_def error_set_def collaborator_error_def
        DP_error_set_def)
next
  case (Some ls)
  with transient_op_result[OF assms(1-3), of env call] show ?thesis
    by (auto simp: outcome_new_or_failure_def)
qed

lemma handle_pen_up_outcome:
  assumes wf: "heap_wf h" and ok: "snapshot_ok h cs"
  shows "outcome_new_or_failure h (handle_pen_up env cs context_id h)
       \<or> outcome_input h cs (handle_pen_up env cs context_id h)"
proof -
  from ok obtain s ll l where s: "canvas_states h cs = Some s" "0 < refcount s"
    "layers s = Some ll" "layer_lists h ll = Some l"
    by (auto elim!: snapshot_okE)
  have inv0: "pen_up_inv h ll (fst (h, None)) (snd (h, None :: addr option))"
    using s by (simp add: pen_up_inv_def list_len_def)
  have len: "list_len h ll = Some (length (ll_layers l))"
    using s by (simp add: list_len_def)
  from pen_up_layers_ok[OF wf ok s(1,3) inv0 len, of env context_id 0] obtain h' tcs' where
    r: "pen_up_layers env cs context_id ll (length (ll_layers l)) (h, None) 0 = Some (h', tcs')"
      "pen_up_inv h ll h' tcs'" by blast
  show ?thesis
  proof (cases tcs')
    case None
    with r have "h' = h" by (simp add: pen_up_inv_def)
    with None r s have "outcome_input h cs (handle_pen_up env cs context_id h)"
      by (simp add: handle_pen_up_def DP_canvas_state_incref_def outcome_input_def
          same_snapshot_def)
    then show ?thesis ..
  next
    case (Some t)
    with r obtain ts tl where t: "t = next_addr h" "canvas_states h' t = Some ts"
      "refcount ts = 1" "transient ts" "layers ts = Some (Suc t)"
      "layer_lists h' (Suc t) = Some tl"
      by (auto simp: pen_up_inv_def list_len_def split: option.splits)
    from wf t have "canvas_states h t = None" using heap_wf_fresh[OF wf] by simp
    with Some r s t have "outcome_new_or_failure h (handle_pen_up env cs context_id h)"
      by (simp add: handle_pen_up_def DP_transient_canvas_state_persist_def
          DP_transient_layer_list_persist_def outcome_new_or_failure_def fresh_snapshot_def)
    then show ?thesis ..
  qed
qed

lemma handle_layer_attr_outcome:
  assumes "heap_wf h" "snapshot_ok h cs" "collaborators_report env"
  shows "outcome_new_or_failure h (handle_layer_attr env cs mla h)"
proof -
  have "handle_layer_attr env cs mla h = transient_op env cs 0
      (DP_transient_layer_list_layer_attr (DP_msg_layer_attr_layer_id mla)
         (DP_msg_layer_attr_sublayer_id mla) (DP_msg_layer_attr_opacity mla)
         (DP_msg_layer_attr_blend_mode mla)
         (DP_msg_layer_attr_flags mla AND DP_MSG_LAYER_ATTR_FLAG_CENSORED env \<noteq> 0)
         (DP_msg_layer_attr_flags mla AND DP_MSG_LAYER_ATTR_FLAG_FIXED env \<noteq> 0)) h"
    by (simp add: handle_layer_attr_def transient_op_def Let_def)
  with transient_op_outcome[OF assms(1,2) _ assms(3), of 0] show ?thesis by simp
qed

lemma handle_layer_retitle_outcome:
  assumes "heap_wf h" "snapshot_ok h cs" "collaborators_report env"
  shows "outcome_new_or_failure h (handle_layer_retitle env cs mlr h)"
  using transient_op_outcome[OF assms(1,2) _ assms(3), of 0]
  by (simp add: handle_layer_retitle_def transient_op_def)

lemma handle_layer_delete_outcome:
  assumes "heap_wf h" "snapshot_ok h cs" "collaborators_report env"
  shows "outcome_new_or_failure h (handle_layer_delete env cs context_id mld h)"
  using transient_op_outcome[OF assms(1,2) _ assms(3), of 0]
  by (simp add: handle_layer_delete_def transient_op_def)

lemma handle_layer_visibility_outcome:
  assumes "heap_wf h" "snapshot_ok h cs" "collaborators_report env"
  shows "outcome_new_or_failure h (handle_layer_visibility env cs mlv h)"
  using transient_op_outcome[OF assms(1,2) _ assms(3), of 0]
  by (simp add: handle_layer_visibility_def transient_op_def)

lemma handle_put_image_outcome:
  assumes "heap_wf h" "snapshot_ok h cs" "collaborators_report env"
  shows "outcome_new_or_failure h (handle_put_image env cs context_id mpi h)"
  using transient_op_outcome[OF assms(1,2) _ assms(3), of 0]
  by (simp add: handle_put_image_def transient_op_def Let_def)

lemma handle_fill_rect_outcome:
  assumes "heap_wf h" "snapshot_ok h cs" "collaborators_report env"
  shows "outcome_new_or_failure h (handle_fill_rect env cs context_id mfr h)"
proof -
  from assms(2) obtain s where "canvas_states h cs = Some s" by (auto elim: snapshot_okE)
  then show ?thesis
    using transient_op_outcome[OF assms(1,2) _ assms(3), of 0]
    by (simp add: handle_fill_rect_def transient_op_def Let_def)
qed

lemma region_move_masked_outcome:
  assumes "heap_wf h" "snapshot_ok h cs" "collaborators_report env"
  shows "outcome_new_or_failure h (region_move_masked env cs context_id mrm m h)"
proof -
  from assms(2) obtain s where "canvas_states h cs = Some s" by (auto elim: snapshot_okE)
  then show ?thesis
    using transient_op_outcome[OF assms(1,2) _ assms(3), of 0]
    by (simp add: region_move_masked_def transient_op_def Let_def split: prod.splits)
qed

lemma handle_region_move_outcome:
  assumes "heap_wf h" "snapshot_ok h cs" "collaborators_report env"
  shows "outcome_new_or_failure h (handle_region_move env cs context_id mrm h)"
proof -
  obtain src_x src_y src_width src_height where
    r: "DP_msg_region_move_src_rect mrm = (src_x, src_y, src_width, src_height)"
    by (cases "DP_msg_region_move_src_rect mrm") auto
  show ?thesis
  proof (cases "src_width \<le>s 0 \<or> src_height \<le>s 0")
    case True
    with r show ?thesis by (simp add: handle_region_move_def)
  next
    case False
    then have pos: "0 \<le>s src_width" "0 \<le>s src_height" by (auto simp: word_sle_eq)
    show ?thesis
    proof (cases "DP_msg_region_move_mask mrm")
      case None
      with r False region_move_masked_outcome[OF assms] show ?thesis
        by (simp add: handle_region_move_def)
    next
      case (Some in_mask)
      from monochrome_returns[OF pos, of env in_mask h] assms(3) obtain res h1 where
        d: "DP_image_new_from_compressed_monochrome env src_width src_height in_mask h
             = Some (res, h1)"
        and h1: "h1\<lparr>errors := errors h\<rparr> = h" "res \<noteq> None \<longrightarrow> h1 = h"
          "res = None \<longrightarrow> error_set h h1"
        by blast
      show ?thesis
      proof (cases res)
        case None
        from h1(1) have "canvas_states (h1\<lparr>errors := errors h\<rparr>) = canvas_states h"
          "layer_lists (h1\<lparr>errors := errors h\<rparr>) = layer_lists h"
          "tiles (h1\<lparr>errors := errors h\<rparr>) = tiles h" by simp_all
        then have "same_objects h h1" by (simp add: same_objects_def)
        with None h1(3) d Some r False show ?thesis
          by (simp add: handle_region_move_def outcome_new_or_failure_def)
      next
        case (Some m)
        with h1(2) have "h1 = h" by simp
        with Some d \<open>DP_msg_region_move_mask mrm = Some in_mask\<close> r False
          region_move_masked_outcome[OF assms] show ?thesis
          by (simp add: handle_region_move_def)
      qed
    qed
  qed
qed

lemma handle_draw_dabs_outcome:
  assumes "heap_wf h" "snapshot_ok h cs" "collaborators_report env"
  shows "outcome_new_or_failure h (handle_draw_dabs env cs type context_id mdd get_dabs h)
       \<or> outcome_input h cs (handle_draw_dabs env cs type context_id mdd get_dabs h)"
proof -
  from assms(2) obtain s where "canvas_states h cs = Some s" "0 < refcount s"
    by (auto elim: snapshot_okE)
  then show ?thesis
    using transient_op_outcome[OF assms(1,2) _ assms(3), of 0]
    by (auto simp: handle_draw_dabs_def transient_op_def Let_def DP_canvas_state_incref_def
        outcome_input_def same_snapshot_def split: prod.splits)
qed


lemma handle_canvas_resize_outcome:
  assumes wf: "heap_wf h" and ok: "snapshot_ok h cs"
  shows "outcome_new_or_failure h (handle_canvas_resize env cs context_id mcr h)"
proof -
  from ok obtain s where s: "canvas_states h cs = Some s" by (auto elim: snapshot_okE)
  from canvas_resize_wrapped[OF wf ok s, of mcr env context_id] show ?thesis
    by (auto simp: Let_def outcome_new_or_failure_def)
qed

lemma handle_layer_order_outcome:
  assumes wf: "heap_wf h" and ok: "snapshot_ok h cs"
    and re: "layer_reorder env (snapshot_layers h cs) layer_ids \<noteq> None"
  shows "outcome_new_or_failure h (handle_layer_order env cs layer_ids h)"
proof -
  from ok obtain s ll l where s: "canvas_states h cs = Some s" and l: "0 < refcount s" "\<not> transient s"
    "layers s = Some ll" "layer_lists h ll = Some l" "0 < ll_refcount l" "\<not> ll_transient l"
    and bg: "tile_ok h (background_tile s)" and sl: "snapshot_layers h cs = ll_layers l"
    by (auto elim!: snapshot_okE)
  from re sl obtain ls where ls: "layer_reorder env (ll_layers l) layer_ids = Some ls" by auto
  from wf s l have ne: "cs \<noteq> next_addr h" "ll \<noteq> next_addr h" "ll \<noteq> Suc (next_addr h)"
    using heap_wf_live[OF wf] by fastforce+
  note fr = heap_wf_fresh[OF wf]
  show ?thesis
  proof (cases "background_tile s")
    case None
    with s l ls ne fr show ?thesis
      by (auto simp: handle_layer_order_def DP_layer_list_layer_reorder_def store_defs
          outcome_defs outcome_new_or_failure_def fun_upd_twist)
  next
    case (Some t)
    with bg obtain tile where t: "tiles h t = Some tile" "0 < tile_refcount tile"
      by (auto elim: tile_okE)
    with wf have "t \<noteq> next_addr h" using heap_wf_live[OF wf] by fastforce
    with Some t s l ls ne fr show ?thesis
      by (auto simp: handle_layer_order_def DP_layer_list_layer_reorder_def store_defs
          outcome_defs outcome_new_or_failure_def fun_upd_twist)
  qed
qed

lemma handle_layer_create_outcome:
  assumes wf: "heap_wf h" and ok: "snapshot_ok h cs" and rep: "collaborators_report env"
  shows "outcome_new_or_failure h (handle_layer_create env cs context_id mlc h)"
proof -
  from ok obtain s ll l where s: "canvas_states h cs = Some s" and l: "0 < refcount s" "\<not> transient s"
    "layers s = Some ll" "layer_lists h ll = Some l" "0 < ll_refcount l" "\<not> ll_transient l"
    and bg: "tile_ok h (background_tile s)"
    by (auto elim!: snapshot_okE)
  from wf s l have ne: "cs \<noteq> next_addr h" "ll \<noteq> next_addr h" "ll \<noteq> Suc (next_addr h)"
    "ll \<noteq> Suc (Suc (next_addr h))"
    using heap_wf_live[OF wf] by fastforce+
  note fr = heap_wf_fresh[OF wf]
  show ?thesis
  proof (cases "background_tile s")
    case None
    with s l ne fr show ?thesis
      by (auto simp: handle_layer_create_def DP_tile_new_from_bgra_def DP_tile_new_def
          tile_data_nullable_def store_defs outcome_defs outcome_new_or_failure_def Let_def
          error_set_def fun_upd_twist word_sle_eq split: option.splits
          dest!: layer_list_reports[OF rep])
  next
    case (Some t)
    with bg obtain tile where t: "tiles h t = Some tile" "0 < tile_refcount tile"
      by (auto elim: tile_okE)
    with wf have "t \<noteq> next_addr h" "t \<noteq> Suc (next_addr h)"
      using heap_wf_live[OF wf] by fastforce+
    with Some t s l ne fr show ?thesis
      by (auto simp: handle_layer_create_def DP_tile_new_from_bgra_def DP_tile_new_def
          tile_data_nullable_def store_defs outcome_defs outcome_new_or_failure_def Let_def
          error_set_def fun_upd_twist word_sle_eq split: option.splits
          dest!: layer_list_reports[OF rep])
  qed
qed


lemma outcome_failed:
  assumes "h1\<lparr>errors := errors h\<rparr> = h" "error_set h h1"
  shows "outcome_new_or_failure h (Some (None, h1))"
proof -
  from assms(1) have "canvas_states (h1\<lparr>errors := errors h\<rparr>) = canvas_states h"
    "layer_lists (h1\<lparr>errors := errors h\<rparr>) = layer_lists h"
    "tiles (h1\<lparr>errors := errors h\<rparr>) = tiles h" by simp_all
  then have "same_objects h h1" by (simp add: same_objects_def)
  with assms(2) show ?thesis by (simp add: outcome_new_or_failure_def)
qed

lemma payload_tile_cases:
  "(\<exists>h1. payload_tile env context_id payload h = (None, h1) \<and> h1\<lparr>errors := errors h\<rparr> = h
       \<and> (collaborators_report env \<longrightarrow> error_set h h1))
   \<or> (\<exists>d. payload_tile env context_id payload h =
         (Some (next_addr h),
          h\<lparr>tiles := (tiles h)(next_addr h \<mapsto> \<lparr>tile_refcount = 1, tile_data = d\<rparr>),
            next_addr := Suc (next_addr h)\<rparr>))"
  by (auto simp: payload_tile_def DP_tile_new_from_bgra_def DP_tile_new_from_compressed_def
      DP_tile_new_def DP_error_set_def collaborator_error_def collaborators_report_def
      error_set_def split: DP_TilePayload.splits option.splits)

lemma handle_put_tile_outcome:
  assumes wf: "heap_wf h" and ok: "snapshot_ok h cs" and rep: "collaborators_report env"
  shows "outcome_new_or_failure h (handle_put_tile env cs context_id mpt h)"
proof -
  from ok obtain s ll l where s: "canvas_states h cs = Some s" and l: "0 < refcount s" "\<not> transient s"
    "layers s = Some ll" "layer_lists h ll = Some l" "0 < ll_refcount l" "\<not> ll_transient l"
    and bg: "tile_ok h (background_tile s)"
    by (auto elim!: snapshot_okE)
  from wf s l have ne: "cs \<noteq> next_addr h" "cs \<noteq> Suc (next_addr h)" "ll \<noteq> next_addr h"
    "ll \<noteq> Suc (next_addr h)" "ll \<noteq> Suc (Suc (next_addr h))"
    using heap_wf_live[OF wf] by fastforce+
  note fr = heap_wf_fresh[OF wf]
  from payload_tile_cases[of env context_id "DP_msg_put_tile_payload mpt" h]
  show ?thesis
  proof
    assume "\<exists>h1. payload_tile env context_id (DP_msg_put_tile_payload mpt) h = (None, h1)
       \<and> h1\<lparr>errors := errors h\<rparr> = h \<and> (collaborators_report env \<longrightarrow> error_set h h1)"
    with rep show ?thesis by (auto simp: handle_put_tile_def intro: outcome_failed)
  next
    assume "\<exists>d. payload_tile env context_id (DP_msg_put_tile_payload mpt) h =
         (Some (next_addr h),
          h\<lparr>tiles := (tiles h)(next_addr h \<mapsto> \<lparr>tile_refcount = 1, tile_data = d\<rparr>),
            next_addr := Suc (next_addr h)\<rparr>)"
    then obtain d where p: "payload_tile env context_id (DP_msg_put_tile_payload mpt) h =
         (Some (next_addr h),
          h\<lparr>tiles := (tiles h)(next_addr h \<mapsto> \<lparr>tile_refcount = 1, tile_data = d\<rparr>),
            next_addr := Suc (next_addr h)\<rparr>)" by blast
    show ?thesis
    proof (cases "background_tile s")
      case None
      with p s l ne fr show ?thesis
        by (auto simp: handle_put_tile_def store_defs outcome_defs outcome_new_or_failure_def
            error_set_def fun_upd_twist word_sle_eq split: option.splits
            dest!: layer_list_reports[OF rep] layer_list_silent[OF rep])
    next
      case (Some t)
      with bg obtain tile where t: "tiles h t = Some tile" "0 < tile_refcount tile"
        by (auto elim: tile_okE)
      with wf have "t \<noteq> next_addr h" "t \<noteq> Suc (next_addr h)"
        using heap_wf_live[OF wf] by fastforce+
      with Some t p s l ne fr show ?thesis
        by (auto simp: handle_put_tile_def store_defs outcome_defs outcome_new_or_failure_def
            error_set_def fun_upd_twist word_sle_eq split: option.splits
            dest!: layer_list_reports[OF rep] layer_list_silent[OF rep])
    qed
  qed
qed

lemma handle_canvas_background_outcome:
  assumes wf: "heap_wf h" and ok: "snapshot_ok h cs" and rep: "collaborators_report env"
  shows "outcome_new_or_failure h (handle_canvas_background env cs context_id mcb h)"
proof -
  from ok obtain s ll l where s: "canvas_states h cs = Some s" and l: "0 < refcount s" "\<not> transient s"
    "layers s = Some ll" "layer_lists h ll = Some l" "0 < ll_refcount l" "\<not> ll_transient l"
    and bg: "tile_ok h (background_tile s)"
    by (auto elim!: snapshot_okE)
  from wf s l have ne: "cs \<noteq> next_addr h" "cs \<noteq> Suc (next_addr h)" "ll \<noteq> next_addr h"
    "ll \<noteq> Suc (next_addr h)" "ll \<noteq> Suc (Suc (next_addr h))"
    using heap_wf_live[OF wf] by fastforce+
  note fr = heap_wf_fresh[OF wf]
  from payload_tile_cases[of env context_id mcb h]
  show ?thesis
  proof
    assume "\<exists>h1. payload_tile env context_id mcb h = (None, h1)
       \<and> h1\<lparr>errors := errors h\<rparr> = h \<and> (collaborators_report env \<longrightarrow> error_set h h1)"
    with rep show ?thesis by (auto simp: handle_canvas_background_def intro: outcome_failed)
  next
    assume "\<exists>d. payload_tile env context_id mcb h =
         (Some (next_addr h),
          h\<lparr>tiles := (tiles h)(next_addr h \<mapsto> \<lparr>tile_refcount = 1, tile_data = d\<rparr>),
            next_addr := Suc (next_addr h)\<rparr>)"
    then obtain d where p: "payload_tile env context_id mcb h =
         (Some (next_addr h),
          h\<lparr>tiles := (tiles h)(next_addr h \<mapsto> \<lparr>tile_refcount = 1, tile_data = d\<rparr>),
            next_addr := Suc (next_addr h)\<rparr>)" by blast
    show ?thesis
    proof (cases "background_tile s")
      case None
      with p s l ne fr show ?thesis
        by (auto simp: handle_canvas_background_def store_defs outcome_defs
            outcome_new_or_failure_def fun_upd_twist split: option.splits)
    next
      case (Some t)
      with bg obtain tile where t: "tiles h t = Some tile" "0 < tile_refcount tile"
        by (auto elim: tile_okE)
      with wf have "t \<noteq> next_addr h" "t \<noteq> Suc (next_addr h)"
        using heap_wf_live[OF wf] by fastforce+
      with Some t p s l ne fr show ?thesis
        by (auto simp: handle_canvas_background_def store_defs outcome_defs
            outcome_new_or_failure_def fun_upd_twist split: option.splits)
    qed
  qed
qed

text \<open>
  Claim C1, amended. On a snapshot of a well-formed store, with collaborators that record a
  message when they fail, \<^verbatim>\<open>DP_canvas_state_handle\<close> returns: a failure (\<^verbatim>\<open>NULL\<close> with an
  error set), and then the objects of the store (canvas states, layer lists, tiles and their
  counts) are those before the call, the transient state and its list released; or a new
  snapshot at an address not in use before, persistent with a persistent layer list; or, for
  a pen-up or draw-dabs message only, the input snapshot itself, its reference count one
  higher. Two messages are left out: a layer-order message whose reorder returns \<^verbatim>\<open>NULL\<close>,
  and a pen-up that finds sublayers of its user in more than one layer.
\<close>

theorem handle_outcomes:
  assumes wf: "heap_wf h" and ok: "snapshot_ok h cs"
    and rep: "collaborators_report env"
    and re: "reorder_returns_list env h cs (DP_message_body msg)"
    and pu: "pen_up_in_one_layer h cs msg"
  shows "outcome_new_or_failure h (DP_canvas_state_handle env cs msg h)
       \<or> (pen_up_or_draw_dabs (DP_message_body msg)
          \<and> outcome_input h cs (DP_canvas_state_handle env cs msg h))"
proof -
  from ok obtain s where s: "canvas_states h cs = Some s" "0 < refcount s" "\<not> transient s"
    by (auto elim!: snapshot_okE)
  note o = handle_canvas_resize_outcome[OF wf ok] handle_layer_create_outcome[OF wf ok rep]
    handle_layer_attr_outcome[OF wf ok rep] handle_layer_retitle_outcome[OF wf ok rep]
    handle_layer_delete_outcome[OF wf ok rep] handle_layer_visibility_outcome[OF wf ok rep]
    handle_put_image_outcome[OF wf ok rep] handle_fill_rect_outcome[OF wf ok rep]
    handle_region_move_outcome[OF wf ok rep] handle_put_tile_outcome[OF wf ok rep]
    handle_canvas_background_outcome[OF wf ok rep] handle_pen_up_outcome[OF wf ok]
    handle_draw_dabs_outcome[OF wf ok rep]
  show ?thesis
  proof (cases "DP_message_body msg")
    case (DP_MSG_LAYER_ORDER ids)
    with re have "layer_reorder env (snapshot_layers h cs) ids \<noteq> None"
      by (simp add: reorder_returns_list_def)
    from handle_layer_order_outcome[OF wf ok this] DP_MSG_LAYER_ORDER s show ?thesis
      by (simp add: DP_canvas_state_handle_def)
  qed (use s o in \<open>simp_all add: DP_canvas_state_handle_def pen_up_or_draw_dabs_def\<close>)
qed


lemmas pen_up_defs =
  handle_pen_up_def list_at_def pen_up_sublayer_id_def pen_up_merge_def DP_uint_to_int_def
  DP_transient_layer_list_transient_at_def DP_transient_layer_merge_sublayer_at_def

theorem handle_outcomes_witness:
  "heap_wf example_heap \<and> snapshot_ok example_heap 0 \<and> collaborators_report example_env
   \<and> reorder_returns_list example_env example_heap 0 (DP_MSG_LAYER_ORDER [2, 1])
   \<and> pen_up_in_one_layer example_heap 0
       \<lparr>DP_message_context_id = 8, DP_message_body = DP_MSG_PEN_UP\<rparr>
   \<and> outcome_new_or_failure example_heap
       (DP_canvas_state_handle example_env 0
          \<lparr>DP_message_context_id = 9, DP_message_body = DP_MSG_LAYER_ORDER [2, 1]\<rparr>
          example_heap)
   \<and> outcome_new_or_failure example_heap
       (DP_canvas_state_handle example_env 0
          \<lparr>DP_message_context_id = 9, DP_message_body = DP_MSG_OTHER\<rparr> example_heap)
   \<and> outcome_input example_heap 0
         (DP_canvas_state_handle example_env 0
            \<lparr>DP_message_context_id = 8, DP_message_body = DP_MSG_PEN_UP\<rparr> example_heap)
   \<and> heap_wf one_sublayer_heap \<and> snapshot_ok one_sublayer_heap 0
   \<and> pen_up_in_one_layer one_sublayer_heap 0
       \<lparr>DP_message_context_id = 7, DP_message_body = DP_MSG_PEN_UP\<rparr>
   \<and> outcome_new_or_failure one_sublayer_heap
         (DP_canvas_state_handle example_env 0
            \<lparr>DP_message_context_id = 7, DP_message_body = DP_MSG_PEN_UP\<rparr> one_sublayer_heap)"
proof -
  have wf1: "heap_wf one_sublayer_heap"
    by (auto simp: heap_wf_def one_sublayer_heap_def example_heap_def)
  have ok1: "snapshot_ok one_sublayer_heap 0"
    by (simp add: snapshot_ok_def tile_ok_def layer_list_ok_def one_sublayer_heap_def
        example_heap_def)
  have pu1: "pen_up_in_one_layer one_sublayer_heap 0
       \<lparr>DP_message_context_id = 7, DP_message_body = DP_MSG_PEN_UP\<rparr>"
    by (simp add: pen_up_in_one_layer_def snapshot_layers_def one_sublayer_heap_def
        example_heap_def DP_uint_to_int_def)
  have new1: "\<not> outcome_input one_sublayer_heap 0
         (DP_canvas_state_handle example_env 0
            \<lparr>DP_message_context_id = 7, DP_message_body = DP_MSG_PEN_UP\<rparr> one_sublayer_heap)"
    by (simp add: DP_canvas_state_handle_def pen_up_defs store_defs outcome_input_def
        same_snapshot_def one_sublayer_heap_def example_heap_def example_env_def word_sle_eq)
  have old8: "\<not> outcome_new_or_failure example_heap
         (DP_canvas_state_handle example_env 0
            \<lparr>DP_message_context_id = 8, DP_message_body = DP_MSG_PEN_UP\<rparr> example_heap)"
    by (simp add: DP_canvas_state_handle_def pen_up_defs store_defs outcome_new_or_failure_def
        fresh_snapshot_def example_heap_def)
  have rep: "collaborators_report example_env"
    by (simp add: collaborators_report_def example_env_def)
  have re: "reorder_returns_list example_env example_heap 0 (DP_MSG_LAYER_ORDER [2, 1])"
    by (simp add: reorder_returns_list_def snapshot_layers_def example_heap_def example_env_def
        spec_layer_reorder_def)
  have pu: "pen_up_in_one_layer example_heap 0
       \<lparr>DP_message_context_id = 8, DP_message_body = DP_MSG_PEN_UP\<rparr>"
    by (simp add: pen_up_in_one_layer_def snapshot_layers_def example_heap_def
        DP_uint_to_int_def)
  show ?thesis
    using handle_outcomes[OF example_heap_wf example_snapshot_ok rep,
        where msg = "\<lparr>DP_message_context_id = 9, DP_message_body = DP_MSG_LAYER_ORDER [2, 1]\<rparr>"]
      handle_outcomes[OF example_heap_wf example_snapshot_ok rep,
        where msg = "\<lparr>DP_message_context_id = 9, DP_message_body = DP_MSG_OTHER\<rparr>"]
      handle_outcomes[OF example_heap_wf example_snapshot_ok rep,
        where msg = "\<lparr>DP_message_context_id = 8, DP_message_body = DP_MSG_PEN_UP\<rparr>"]
      handle_outcomes[OF wf1 ok1 rep,
        where msg = "\<lparr>DP_message_context_id = 7, DP_message_body = DP_MSG_PEN_UP\<rparr>"]
      rep re pu example_heap_wf example_snapshot_ok wf1 ok1 pu1 new1 old8
    by (simp add: pen_up_or_draw_dabs_def reorder_returns_list_def pen_up_in_one_layer_def)
qed

text \<open>
  Claim C1 as stated fails: a pen-up for a user without sublayers returns neither a failure
  nor a new snapshot but the input snapshot, at its old address, with its count raised.
\<close>

theorem pen_up_returns_input_snapshot:
  "DP_canvas_state_handle example_env 0
     \<lparr>DP_message_context_id = 8, DP_message_body = DP_MSG_PEN_UP\<rparr> example_heap
   = Some (Some 0, example_heap\<lparr>canvas_states := (canvas_states example_heap)(0 \<mapsto>
       \<lparr>refcount = 2, transient = False, width = 100, height = 80,
        background_tile = None, layers = Some 1\<rparr>)\<rparr>)
   \<and> \<not> outcome_new_or_failure example_heap
       (DP_canvas_state_handle example_env 0
          \<lparr>DP_message_context_id = 8, DP_message_body = DP_MSG_PEN_UP\<rparr> example_heap)"
proof -
  have e: "DP_canvas_state_handle example_env 0
     \<lparr>DP_message_context_id = 8, DP_message_body = DP_MSG_PEN_UP\<rparr> example_heap
   = Some (Some 0, example_heap\<lparr>canvas_states := (canvas_states example_heap)(0 \<mapsto>
       \<lparr>refcount = 2, transient = False, width = 100, height = 80,
        background_tile = None, layers = Some 1\<rparr>)\<rparr>)"
    by (simp add: DP_canvas_state_handle_def pen_up_defs store_defs example_heap_def)
  show ?thesis
    unfolding e by (simp add: outcome_new_or_failure_def fresh_snapshot_def example_heap_def)
qed

lemma pen_up_sublayers_no_match:
  "(\<And>k. j \<le> k \<Longrightarrow> k < n \<Longrightarrow>
      \<exists>lid. pen_up_sublayer_id ll i st k = Some lid \<and> lid \<noteq> DP_uint_to_int context_id) \<Longrightarrow>
   pen_up_sublayers env cs context_id ll i st n j = Some st"
proof (induction env cs context_id ll i st n j rule: pen_up_sublayers.induct)
  case (1 env cs context_id ll i st sublayer_count j)
  show ?case
  proof (cases "j < sublayer_count")
    case False
    then show ?thesis by (subst pen_up_sublayers.simps) simp
  next
    case True
    from "1.prems"[of j] True obtain lid where
      lid: "pen_up_sublayer_id ll i st j = Some lid" "lid \<noteq> DP_uint_to_int context_id"
      by auto
    have "pen_up_sublayers env cs context_id ll i st sublayer_count (j + 1) = Some st"
      using "1.IH"(2)[OF True lid] "1.prems" by simp
    with True lid show ?thesis by (subst pen_up_sublayers.simps) simp
  qed
qed

lemma pen_up_layers_no_match:
  "layer_lists h ll = Some l \<Longrightarrow> length (ll_layers l) = layer_count \<Longrightarrow>
   (\<forall>layer \<in> set (ll_layers l). \<forall>sub \<in> set (DP_layer_sublayers_noinc layer).
      DP_layer_id sub \<noteq> DP_uint_to_int context_id) \<Longrightarrow> st = (h, None) \<Longrightarrow>
   pen_up_layers env cs context_id ll layer_count st i = Some (h, None)"
proof (induction env cs context_id ll layer_count st i rule: pen_up_layers.induct)
  case (1 env cs context_id ll layer_count st i)
  note l = "1.prems"(1,2) and nm = "1.prems"(3) and st = "1.prems"(4)
  show ?case
  proof (cases "i < layer_count")
    case False
    with st show ?thesis by (subst pen_up_layers.simps) simp
  next
    case True
    with l have la: "list_at (ll_layers l) i = Some (ll_layers l ! i)"
      by (simp add: list_at_def)
    let ?subs = "DP_layer_sublayers_noinc (ll_layers l ! i)"
    have "\<exists>lid. pen_up_sublayer_id ll i (h, None, None) k = Some lid
            \<and> lid \<noteq> DP_uint_to_int context_id" if "k < length ?subs" for k
    proof -
      from True l have "ll_layers l ! i \<in> set (ll_layers l)" by simp
      moreover from that have "?subs ! k \<in> set ?subs" by simp
      ultimately have "DP_layer_id (?subs ! k) \<noteq> DP_uint_to_int context_id"
        using nm by blast
      with that l True show ?thesis
        by (simp add: pen_up_sublayer_id_def list_at_def)
    qed
    then have r: "pen_up_sublayers env cs context_id ll i (h, None, None) (length ?subs) 0
        = Some (h, None, None)"
      by (intro pen_up_sublayers_no_match) simp
    have "pen_up_layers env cs context_id ll layer_count (h, None) (i + 1) = Some (h, None)"
      using "1.IH"[OF True st[symmetric] l(1) la r refl refl l nm refl] .
    with True st l la r show ?thesis by (subst pen_up_layers.simps) simp
  qed
qed

text \<open>
  Without a sublayer of the user in any layer, \<^verbatim>\<open>handle_pen_up\<close> clones nothing and returns
  the input snapshot, its reference count one higher.
\<close>

lemma pen_up_lazy:
  assumes "canvas_states h cs = Some s" "0 < refcount s" "layers s = Some ll"
    "layer_lists h ll = Some l"
    and "\<forall>layer \<in> set (ll_layers l). \<forall>sub \<in> set (DP_layer_sublayers_noinc layer).
      DP_layer_id sub \<noteq> DP_uint_to_int context_id"
  shows "handle_pen_up env cs context_id h
     = Some (Some cs, h\<lparr>canvas_states := (canvas_states h)(cs \<mapsto> s\<lparr>refcount := refcount s + 1\<rparr>)\<rparr>)"
  using assms pen_up_layers_no_match[OF assms(4) refl assms(5) refl, of env cs 0]
  by (simp add: handle_pen_up_def DP_canvas_state_incref_def)


text \<open>
  Claim C7. The claim says that a pen-up merges away every sublayer of the user, so that a
  second pen-up finds none and returns its input. In the example store both layers have a
  sublayer of user 7. The pen-up clones the canvas state and the layer list for layer 1;
  for layer 2 it takes \<^verbatim>\<open>ll\<close>, still the input's list, for the transient list, so the
  sublayer of layer 2 is merged in the list of the input snapshot (address 0) and stays in
  the list of the snapshot returned (address 2). The second pen-up, on that snapshot, finds
  it and makes another snapshot (address 4).
\<close>

theorem pen_up_leaves_second_layer_unmerged:
  "(case handle_pen_up example_env 0 7 example_heap of
      Some (Some p, h') \<Rightarrow>
        p = 2
        \<and> snapshot_layers h' 2 = [DP_Layer 1 11 [], DP_Layer 2 20 [DP_Layer 7 2 []]]
        \<and> snapshot_layers h' 0 = [DP_Layer 1 10 [DP_Layer 7 1 []], DP_Layer 2 22 []]
        \<and> map_option fst (handle_pen_up example_env 2 7 h') = Some (Some 4)
    | _ \<Rightarrow> False)"
  by (simp add: pen_up_defs store_defs snapshot_layers_def example_heap_def example_env_def
      word_sle_eq)

text \<open>Whatever the reorder returns, \<^verbatim>\<open>handle_layer_order\<close> does not return a failure.\<close>

lemma handle_layer_order_never_fails:
  "handle_layer_order env cs layer_ids h \<noteq> Some (None, h')"
  by (auto simp: handle_layer_order_def split: Option.bind_splits prod.splits)

text \<open>
  Claim C9. The claim says that a layer-order message with an unknown id is refused. With
  the reorder of the spec, which fails on the unknown id 3, the handler stores the
  \<^verbatim>\<open>NULL\<close> list in the transient state and persists it: it aborts on the dereference and
  returns no failure. With the ids 2, 1 it returns a new snapshot with the layers in that
  order.
\<close>

theorem layer_order_unknown_id_is_not_refused:
  "layer_reorder example_env (snapshot_layers example_heap 0) [3] = None
   \<and> handle_layer_order example_env 0 [3] example_heap = None
   \<and> (case handle_layer_order example_env 0 [2, 1] example_heap of
        Some (Some p, h') \<Rightarrow> p = 2 \<and> map DP_layer_id (snapshot_layers h' 2) = [2, 1]
      | _ \<Rightarrow> False)"
  by (simp add: handle_layer_order_def DP_layer_list_layer_reorder_def store_defs
      snapshot_layers_def example_heap_def example_env_def spec_layer_reorder_def)


end
